theory Spec2Isabelle
  imports Main
begin

section \<open>Host values and the data model\<close>

text \<open>
  The extension is written against the editor's extension API and Node's standard
  library. Values that cross that boundary are modelled as data: a JavaScript value as
  \<open>jsval\<close>, a plain object (a debug configuration, the user's \<open>debugOptions\<close>) as a
  map from keys to values, an object spread \<open>{...a, ...b}\<close> as map override.
\<close>

datatype jsval =
    JUndefined
  | JNull
  | JBool bool
  | JNum int
  | JStr string
  | JArr "jsval list"
  | JObj "(string \<times> jsval) list"

type_synonym jsobject = "string \<rightharpoonup> jsval"

text \<open>\<open>{...a, ...b}\<close>: the keys of \<open>b\<close> win.\<close>

definition spread :: "jsobject \<Rightarrow> jsobject \<Rightarrow> jsobject" where
  "spread a b = a ++ b"

text \<open>\<open>vscode.Uri\<close> (the two fields the code reads) and \<open>vscode.WorkspaceFolder\<close>.\<close>

record uri =
  uri_fsPath :: string
  uri_path :: string

record workspace_folder =
  wf_uri :: uri
  wf_name :: string

text \<open>The introspected descriptors of \<open>./meson/types\<close>, with the fields the code reads.\<close>

record test =
  test_name :: string
  test_cmd :: "string list"
  test_workdir :: "string option"
  test_env :: "(string \<times> string) list"
  test_depends :: "string list"

record target_source =
  src_language :: string

record target =
  target_name :: string
  target_id :: string
  target_type :: string
  target_filename :: "string list"
  target_sources :: "target_source list"
  target_defined_in :: string
  target_workspace :: "workspace_folder option"

record build_option =
  opt_name :: string
  opt_value :: jsval

record project_info =
  descriptive_name :: string

subsection \<open>Thrown values\<close>

text \<open>
  \<open>error.code\<close> of a \<open>child_process\<close> failure is the exit status of the child, a
  symbolic system code such as \<open>ENOENT\<close>, or absent (a child killed by a signal).
\<close>

datatype err_code = ExitCode int | SysCode string | NoCode

record exec_rejection =
  rej_code :: err_code
  rej_stdout :: string
  rej_stderr :: string

text \<open>
  What a \<open>catch\<close> can receive: the object \<open>exec\<close> rejects with, a \<open>SyntaxError\<close> of
  \<open>JSON.parse\<close>, or a \<open>TypeError\<close> of a property read on \<open>undefined\<close>.
\<close>

datatype thrown = ExecRejected exec_rejection | SyntaxError string | TypeError string

text \<open>What \<open>execFile\<close> hands to its callback, and the wall-clock time the call took.\<close>

record proc_outcome =
  po_error :: "err_code option"
  po_stdout :: string
  po_stderr :: string
  po_elapsed :: int

subsection \<open>The environment\<close>

text \<open>
  Everything the code reads from outside itself: the host's \<open>path\<close> module (POSIX or
  Windows, by platform), the extension configuration, the file system, child processes
  and the introspection reader of \<open>./meson/introspection\<close> (keyed by build directory).
\<close>

record env =
  path_resolve :: "string \<Rightarrow> string \<Rightarrow> string"
  path_relative :: "string \<Rightarrow> string \<Rightarrow> string"
  path_dirname :: "string \<Rightarrow> string"
  mesonPath :: string
  buildFolder :: string
  debugOptions :: jsobject
  existsSync :: "string \<Rightarrow> bool"
  execFile :: "string \<Rightarrow> string list \<Rightarrow> proc_outcome"
  getMesonTargets :: "string \<Rightarrow> thrown + target list"
  getMesonTests :: "string \<Rightarrow> thrown + test list"
  getMesonBenchmarks :: "string \<Rightarrow> thrown + test list"
  getMesonBuildOptions :: "string \<Rightarrow> thrown + build_option list"
  getMesonProjectInfo :: "string \<Rightarrow> thrown + project_info"

text \<open>User-visible effects, in the order the code issues them.\<close>

datatype effect =
    ShowErrorMessage string
  | AppendLine string
  | AppendThrown thrown
  | ConsoleLog string
  | Exec string "string list"

text \<open>\<open>exec\<close> of \<open>utils.ts\<close>: rejects when the callback gets an error.\<close>

definition exec :: "env \<Rightarrow> string \<Rightarrow> string list \<Rightarrow> exec_rejection + (string \<times> string)" where
  "exec E command args =
     (let r = execFile E command args in
      case po_error r of
        Some c \<Rightarrow> Inl \<lparr>rej_code = c, rej_stdout = po_stdout r, rej_stderr = po_stderr r\<rparr>
      | None \<Rightarrow> Inr (po_stdout r, po_stderr r))"

text \<open>The build directory of a folder, as every caller computes it.\<close>

definition buildDirOf :: "env \<Rightarrow> workspace_folder \<Rightarrow> string" where
  "buildDirOf E folder = path_resolve E (uri_fsPath (wf_uri folder)) (buildFolder E)"

section \<open>The test tree (\<open>tests.ts\<close>)\<close>

text \<open>
  A \<open>vscode.TestItem\<close> and its \<open>children\<close> collection. A \<open>TestItemCollection\<close> is an
  insertion-ordered map keyed by item id: \<open>add\<close> replaces an item of the same id where
  it stands and appends a new one, \<open>delete\<close> removes by id, \<open>get\<close> looks up by id.
\<close>

datatype test_item =
  TestItem (item_id: string) (item_label: string) (item_uri: "uri option")
    (item_children: "test_item list")

definition createTestItem :: "string \<Rightarrow> string \<Rightarrow> uri option \<Rightarrow> test_item" where
  "createTestItem i l u = TestItem i l u []"

fun items_add :: "test_item \<Rightarrow> test_item list \<Rightarrow> test_item list" where
  "items_add x [] = [x]"
| "items_add x (y # ys) = (if item_id y = item_id x then x # ys else y # items_add x ys)"

definition items_delete :: "string \<Rightarrow> test_item list \<Rightarrow> test_item list" where
  "items_delete k c = filter (\<lambda>i. item_id i \<noteq> k) c"

definition items_get :: "test_item list \<Rightarrow> string \<Rightarrow> test_item option" where
  "items_get c k = find (\<lambda>i. item_id i = k) c"

text \<open>The operations a reconciliation pass issues on a collection, logged.\<close>

datatype coll_op = OpAdd test_item | OpDelete string

type_synonym coll_state = "test_item list \<times> coll_op list"

definition collection_add :: "test_item \<Rightarrow> coll_state \<Rightarrow> coll_state" where
  "collection_add x s = (items_add x (fst s), snd s @ [OpAdd x])"

definition collection_delete :: "string \<Rightarrow> coll_state \<Rightarrow> coll_state" where
  "collection_delete k s = (items_delete k (fst s), snd s @ [OpDelete k])"

text \<open>
  \<open>rebuildTestsForFolder\<close>: fetch the tests; \<open>forEach\<close> item with no test of its id,
  delete it; then create and add an item for every test. The result is the collection
  and the operations issued on it; a failed fetch is rethrown to the caller. The
  callback deletes only the item it is visiting, so the loop visits the items the
  collection had when it started.
\<close>

definition rebuildTestsForFolder ::
  "env \<Rightarrow> test_item list \<Rightarrow> workspace_folder \<Rightarrow> thrown + coll_state" where
  "rebuildTestsForFolder E collection folder =
     (case getMesonTests E (buildDirOf E folder) of
        Inl e \<Rightarrow> Inl e
      | Inr tests \<Rightarrow>
          (let s0 = (collection, []);
               s1 = fold (\<lambda>item s.
                      if \<not> list_ex (\<lambda>t. item_id item = test_name t) tests
                      then collection_delete (item_id item) s else s) collection s0;
               s2 = fold (\<lambda>testDescr s.
                      collection_add (createTestItem (test_name testDescr) (test_name testDescr)
                        (Some (wf_uri folder))) s) tests s1
           in Inr s2))"

text \<open>Ids present after a pass but not before it, and ids present before but not after.\<close>

definition net_added :: "test_item list \<Rightarrow> test_item list \<Rightarrow> string list" where
  "net_added before after =
     filter (\<lambda>k. \<not> list_ex (\<lambda>i. item_id i = k) before) (map item_id after)"

definition net_removed :: "test_item list \<Rightarrow> test_item list \<Rightarrow> string list" where
  "net_removed before after =
     filter (\<lambda>k. \<not> list_ex (\<lambda>i. item_id i = k) after) (map item_id before)"

definition is_delete :: "coll_op \<Rightarrow> bool" where
  "is_delete op = (case op of OpDelete _ \<Rightarrow> True | OpAdd _ \<Rightarrow> False)"

text \<open>
  The body of the multi-folder loop of \<open>rebuildTests\<close> for one folder. The folder's node
  is looked up by \<open>uri.fsPath\<close> and created with \<open>uri.path\<close> as its id; the children of
  the node, which stands in the collection, are reconciled in place.
\<close>

definition set_children :: "string \<Rightarrow> test_item list \<Rightarrow> test_item list \<Rightarrow> test_item list" where
  "set_children k cs c =
     map (\<lambda>i. if item_id i = k then TestItem (item_id i) (item_label i) (item_uri i) cs else i) c"

definition failedToGetTests :: "workspace_folder \<Rightarrow> effect" where
  "failedToGetTests wsFolder =
     ShowErrorMessage (''Failed to get tests for folder '' @ wf_name wsFolder)"

definition rebuildTests_folder ::
  "env \<Rightarrow> workspace_folder \<Rightarrow> test_item list \<times> effect list \<Rightarrow> test_item list \<times> effect list" where
  "rebuildTests_folder E wsFolder st =
     (let items = fst st; effs = snd st; buildDir = buildDirOf E wsFolder in
      if \<not> existsSync E buildDir then
        (case items_get items (uri_fsPath (wf_uri wsFolder)) of
           None \<Rightarrow> st
         | Some item \<Rightarrow> (items_delete (item_id item) items, effs))
      else
        (case getMesonProjectInfo E buildDir of
           Inl e \<Rightarrow> (items, effs @ [failedToGetTests wsFolder])
         | Inr info \<Rightarrow>
             (let found = items_get items (uri_fsPath (wf_uri wsFolder));
                  item = (case found of
                            Some it \<Rightarrow> it
                          | None \<Rightarrow> createTestItem (uri_path (wf_uri wsFolder))
                                      (descriptive_name info) None);
                  items1 = (case found of Some it \<Rightarrow> items | None \<Rightarrow> items_add item items)
              in case rebuildTestsForFolder E (item_children item) wsFolder of
                   Inl e \<Rightarrow> (items1, effs @ [failedToGetTests wsFolder])
                 | Inr s \<Rightarrow> (set_children (item_id item) (fst s) items1, effs))))"

text \<open>The closing \<open>forEach\<close> of the multi-folder branch, for one item.\<close>

definition prune_item ::
  "workspace_folder list \<Rightarrow> test_item \<Rightarrow> test_item list \<times> effect list \<Rightarrow>
   test_item list \<times> effect list" where
  "prune_item workspaceFolders item st =
     (if length (item_children item) = 0 then (items_delete (item_id item) (fst st), snd st)
      else if \<not> list_ex (\<lambda>wsFolder. uri_path (wf_uri wsFolder) = item_id item) workspaceFolders
      then (items_delete (item_id item) (fst st),
            snd st @ [ConsoleLog (''Removing item with '' @ item_id item @
                                  '' becuase it's not referenced'')])
      else st)"

text \<open>
  \<open>rebuildTests\<close>. With exactly one folder the tests go into the top-level collection
  (the call is not awaited: a failed fetch leaves the collection as it was). Otherwise
  every folder is processed in turn, and the top level is pruned.
\<close>

definition rebuildTests ::
  "env \<Rightarrow> workspace_folder list \<Rightarrow> test_item list \<Rightarrow> test_item list \<times> effect list" where
  "rebuildTests E workspaceFolders items =
     (case workspaceFolders of
        [wsFolder] \<Rightarrow>
          (case rebuildTestsForFolder E items wsFolder of
             Inl e \<Rightarrow> (items, [])
           | Inr s \<Rightarrow> (fst s, []))
      | _ \<Rightarrow>
          (let st = fold (rebuildTests_folder E) workspaceFolders (items, [])
           in fold (prune_item workspaceFolders) (fst st) st))"

subsection \<open>Running tests\<close>


datatype run_event =
    Started test_item
  | Passed test_item "int option"
  | AppendOutput string
  | Errored test_item string
  | Failed test_item string "int option"
  | RunEnd






text \<open>
  What \<open>execFile\<close> reports for a child that exits by itself with status \<open>c\<close>,
  having written \<open>out\<close> and \<open>err\<close> (Node's \<open>child_process\<close>). \<open>exec\<close> passes no
  \<open>maxBuffer\<close>, so the default of 1 MiB holds for each stream: when a stream exceeds
  it, the callback gets the error \<open>ERR_CHILD_PROCESS_STDIO_MAXBUFFER\<close> and the
  output cut at the limit, whatever the status. Otherwise there is no error for status
  0, and an error whose \<open>code\<close> is the status for any other.
\<close>

definition maxBuffer :: nat where
  "maxBuffer = 1048576"

definition exited :: "int \<Rightarrow> string \<Rightarrow> string \<Rightarrow> int \<Rightarrow> proc_outcome" where
  "exited c out err ms =
     (if maxBuffer < length out \<or> maxBuffer < length err then
        \<lparr>po_error = Some (SysCode ''ERR_CHILD_PROCESS_STDIO_MAXBUFFER''),
         po_stdout = take maxBuffer out, po_stderr = take maxBuffer err, po_elapsed = ms\<rparr>
      else
        \<lparr>po_error = (if c = 0 then None else Some (ExitCode c)),
         po_stdout = out, po_stderr = err, po_elapsed = ms\<rparr>)"

subsection \<open>Debugging tests\<close>

definition env_object :: "(string \<times> string) list \<Rightarrow> jsval" where
  "env_object kvs = JObj (map (\<lambda>kv. (fst kv, JStr (snd kv))) kvs)"

text \<open>
  The object literal \<open>debugConfiguration\<close> of \<open>prepareTestInFolder\<close>. \<open>a || b\<close> takes
  \<open>b\<close> for \<open>null\<close> and for the empty string; \<open>cmd[0]\<close> of an empty vector is
  \<open>undefined\<close>; \<open>shift\<close> drops the first element, if any.
\<close>

definition testDebugConfiguration :: "string \<Rightarrow> test \<Rightarrow> jsobject" where
  "testDebugConfiguration buildDir t =
     [''name'' \<mapsto> JStr (''meson-debug-'' @ test_name t),
      ''type'' \<mapsto> JStr ''cppdbg'',
      ''request'' \<mapsto> JStr ''launch'',
      ''cwd'' \<mapsto> JStr (case test_workdir t of
                        None \<Rightarrow> buildDir
                      | Some w \<Rightarrow> if w = [] then buildDir else w),
      ''env'' \<mapsto> env_object (test_env t),
      ''program'' \<mapsto> (case test_cmd t of [] \<Rightarrow> JUndefined | p # _ \<Rightarrow> JStr p),
      ''args'' \<mapsto> JArr (map JStr (tl (test_cmd t)))]"

definition failedToBuildTests :: "workspace_folder \<Rightarrow> effect" where
  "failedToBuildTests wsFolder =
     ShowErrorMessage (''Failed to build tests in '' @ wf_name wsFolder @
                       ''. Results will not be updated'')"

definition relevantTests :: "test_item list \<Rightarrow> test list \<Rightarrow> test list" where
  "relevantTests queue tests =
     filter (\<lambda>t. list_ex (\<lambda>candidate. item_id candidate = test_name t) queue) tests"

definition requiredTargets :: "test list \<Rightarrow> target list \<Rightarrow> target list" where
  "requiredTargets relevant targets =
     filter (\<lambda>tg. list_ex (\<lambda>t. list_ex (\<lambda>dep. dep = target_id tg) (test_depends t)) relevant)
       targets"

definition prepareTestInFolder ::
  "env \<Rightarrow> test_item list \<Rightarrow> workspace_folder \<Rightarrow>
   thrown + (workspace_folder \<times> jsobject) list \<times> effect list" where
  "prepareTestInFolder E queue wsFolder =
     (let buildDir = buildDirOf E wsFolder in
      case getMesonTests E buildDir of
        Inl e \<Rightarrow> Inl e
      | Inr tests \<Rightarrow>
          (case getMesonTargets E buildDir of
             Inl e \<Rightarrow> Inl e
           | Inr targets \<Rightarrow>
               (let relevant = relevantTests queue tests;
                    required = requiredTargets relevant targets
                in if length required = 0 then Inr ([], [])
                   else
                     (let args = [''compile'', ''-C'', buildDir] @ map target_name required
                      in case exec E (mesonPath E) args of
                           Inl e \<Rightarrow>
                             Inr ([], [Exec (mesonPath E) args, failedToBuildTests wsFolder])
                         | Inr out \<Rightarrow>
                             Inr (map (\<lambda>t. (wsFolder,
                                             spread (testDebugConfiguration buildDir t)
                                               (debugOptions E))) relevant,
                                  [Exec (mesonPath E) args])))))"

section \<open>Paths\<close>

text \<open>
  \<open>path.posix\<close> of Node, on which \<open>getTargetName\<close> joins and which is the host's
  \<open>path\<close> on a POSIX platform. A path is read as its \<open>/\<close>-separated segments;
  \<open>normalizeString\<close> drops empty and \<open>.\<close> segments and lets \<open>..\<close> cancel the segment
  before it (above the start, \<open>..\<close> is kept only when \<open>allowAboveRoot\<close>).
\<close>

fun split_sep :: "string \<Rightarrow> string list" where
  "split_sep [] = [[]]"
| "split_sep (c # cs) =
     (if c = CHR ''/'' then [] # split_sep cs
      else (case split_sep cs of [] \<Rightarrow> [[c]] | s # ss \<Rightarrow> (c # s) # ss))"

fun join_sep :: "string list \<Rightarrow> string" where
  "join_sep [] = []"
| "join_sep [s] = s"
| "join_sep (s # t # ss) = s @ CHR ''/'' # join_sep (t # ss)"

fun normalizeSegments :: "bool \<Rightarrow> string list \<Rightarrow> string list \<Rightarrow> string list" where
  "normalizeSegments allowAboveRoot res [] = res"
| "normalizeSegments allowAboveRoot res (s # ss) =
     (if s = [] \<or> s = ''.'' then normalizeSegments allowAboveRoot res ss
      else if s = ''..'' then
        (if res \<noteq> [] \<and> last res \<noteq> ''..'' then normalizeSegments allowAboveRoot (butlast res) ss
         else if allowAboveRoot then normalizeSegments allowAboveRoot (res @ [''..'']) ss
         else normalizeSegments allowAboveRoot res ss)
      else normalizeSegments allowAboveRoot (res @ [s]) ss)"

definition normalizeString :: "string \<Rightarrow> bool \<Rightarrow> string" where
  "normalizeString p allowAboveRoot =
     join_sep (normalizeSegments allowAboveRoot [] (split_sep p))"

definition isAbsolute :: "string \<Rightarrow> bool" where
  "isAbsolute p = (case p of [] \<Rightarrow> False | c # _ \<Rightarrow> c = CHR ''/'')"

definition posix_normalize :: "string \<Rightarrow> string" where
  "posix_normalize p =
     (if p = [] then ''.''
      else
        (let trailingSeparator = (last p = CHR ''/'');
             q = normalizeString p (\<not> isAbsolute p)
         in if q = [] then (if isAbsolute p then ''/'' else if trailingSeparator then ''./'' else ''.'')
            else (let q' = (if trailingSeparator then q @ ''/'' else q)
                  in if isAbsolute p then CHR ''/'' # q' else q')))"

definition posix_join :: "string list \<Rightarrow> string" where
  "posix_join args =
     (case filter (\<lambda>a. a \<noteq> []) args of
        [] \<Rightarrow> ''.''
      | parts \<Rightarrow> posix_normalize (join_sep parts))"

text \<open>
  \<open>resolve\<close> goes through its arguments from the right, then the working directory of
  the process, until the path is absolute; an empty argument is skipped.
\<close>

definition prepend_path :: "string \<Rightarrow> string \<Rightarrow> string" where
  "prepend_path p r = (if p = [] then r else p @ CHR ''/'' # r)"

definition posix_resolve :: "string \<Rightarrow> string \<Rightarrow> string \<Rightarrow> string" where
  "posix_resolve cwd a b =
     (let resolvedPath =
            (if isAbsolute b then prepend_path b []
             else if isAbsolute a then prepend_path a (prepend_path b [])
             else prepend_path cwd (prepend_path a (prepend_path b [])));
          resolvedAbsolute = (isAbsolute b \<or> isAbsolute a \<or> isAbsolute cwd);
          q = normalizeString resolvedPath (\<not> resolvedAbsolute)
      in if resolvedAbsolute then CHR ''/'' # q else if q = [] then ''.'' else q)"

fun drop_common :: "string list \<Rightarrow> string list \<Rightarrow> string list \<times> string list" where
  "drop_common (x # xs) (y # ys) = (if x = y then drop_common xs ys else (x # xs, y # ys))"
| "drop_common xs ys = (xs, ys)"

text \<open>
  \<open>relative\<close> resolves both paths, drops their common leading segments and climbs out
  of what is left of \<open>from\<close>.
\<close>

definition posix_relative :: "string \<Rightarrow> string \<Rightarrow> string \<Rightarrow> string" where
  "posix_relative cwd from to =
     (if from = to then []
      else
        (let f = posix_resolve cwd [] from; t = posix_resolve cwd [] to
         in if f = t then []
            else
              (let r = drop_common (normalizeSegments False [] (split_sep f))
                         (normalizeSegments False [] (split_sep t))
               in join_sep (replicate (length (fst r)) ''..'' @ snd r))))"

text \<open>
  \<open>dirname\<close> scans from the end: trailing separators are skipped, then the last
  segment, and the path up to the separator before it is returned.
\<close>

definition posix_dirname :: "string \<Rightarrow> string" where
  "posix_dirname p =
     (case p of
        [] \<Rightarrow> ''.''
      | c # cs \<Rightarrow>
          (let hasRoot = (c = CHR ''/'');
               r = dropWhile (\<lambda>x. x \<noteq> CHR ''/'') (dropWhile (\<lambda>x. x = CHR ''/'') (rev cs))
           in case r of
                [] \<Rightarrow> (if hasRoot then ''/'' else ''.'')
              | _ # before \<Rightarrow>
                  (if hasRoot \<and> before = [] then ''//'' else c # rev before)))"

section \<open>Target names (\<open>utils.ts\<close>)\<close>

text \<open>\<open>getMesonTargetsFromFolder\<close>: the targets of the folder, each tagged with the folder.\<close>

definition getMesonTargetsFromFolder :: "env \<Rightarrow> workspace_folder \<Rightarrow> thrown + target list" where
  "getMesonTargetsFromFolder E folder =
     (case getMesonTargets E (buildDirOf E folder) of
        Inl e \<Rightarrow> Inl e
      | Inr ret \<Rightarrow> Inr (map (\<lambda>t. t\<lparr>target_workspace := Some folder\<rparr>) ret))"

text \<open>
  \<open>getTargetName\<close>. The first build option named \<open>layout\<close> decides; with no such option
  the read of \<open>layoutOption.value\<close> throws, as does \<open>target.workspace.uri\<close> of a target
  that was not tagged with its folder.
\<close>

definition getTargetName :: "env \<Rightarrow> target \<Rightarrow> thrown + string" where
  "getTargetName E t =
     (case target_workspace t of
        None \<Rightarrow> Inl (TypeError ''Cannot read properties of undefined (reading 'uri')'')
      | Some ws \<Rightarrow>
          (case getMesonBuildOptions E (buildDirOf E ws) of
             Inl e \<Rightarrow> Inl e
           | Inr buildOptions \<Rightarrow>
               (case filter (\<lambda>opt. opt_name opt = ''layout'') buildOptions of
                  [] \<Rightarrow> Inl (TypeError ''Cannot read properties of undefined (reading 'value')'')
                | layoutOption # _ \<Rightarrow>
                    if opt_value layoutOption = JStr ''mirror'' then
                      Inr (posix_join
                             [path_relative E (uri_fsPath (wf_uri ws))
                                (path_dirname E (target_defined_in t)),
                              target_name t])
                    else Inr (''meson-out/'' @ target_name t))))"

section \<open>Task synthesis\<close>

datatype mode = Build | Run | Test | Benchmark | Clean | Reconfigure

text \<open>\<open>MesonTaskDefinition\<close>; its \<open>type\<close> is always \<open>meson\<close>.\<close>

record task_definition =
  def_target :: "string option"
  def_mode :: "mode option"
  def_filename :: "string option"

record process_execution =
  pe_process :: string
  pe_args :: "string list"
  pe_cwd :: "string option"
  pe_env :: "(string \<times> string) list option"

datatype taskgroup = GroupBuild | GroupTest | GroupRebuild | GroupClean

record task =
  task_def :: task_definition
  task_scope :: workspace_folder
  task_name :: string
  task_source :: string
  task_execution :: process_execution
  task_group :: taskgroup

definition defaultBuildTask :: "env \<Rightarrow> string \<Rightarrow> workspace_folder \<Rightarrow> task" where
  "defaultBuildTask E buildDir workspace =
     \<lparr>task_def = \<lparr>def_target = None, def_mode = Some Build, def_filename = None\<rparr>,
      task_scope = workspace, task_name = ''Build all targets'', task_source = ''Meson'',
      task_execution = \<lparr>pe_process = mesonPath E, pe_args = [''compile''],
                        pe_cwd = Some buildDir, pe_env = None\<rparr>,
      task_group = GroupBuild\<rparr>"

definition defaultTestTask :: "env \<Rightarrow> string \<Rightarrow> workspace_folder \<Rightarrow> task" where
  "defaultTestTask E buildDir workspace =
     \<lparr>task_def = \<lparr>def_target = None, def_mode = Some Test, def_filename = None\<rparr>,
      task_scope = workspace, task_name = ''Run tests'', task_source = ''Meson'',
      task_execution = \<lparr>pe_process = mesonPath E, pe_args = [''test''],
                        pe_cwd = Some buildDir, pe_env = None\<rparr>,
      task_group = GroupTest\<rparr>"

definition defaultBenchmarkTask :: "env \<Rightarrow> string \<Rightarrow> workspace_folder \<Rightarrow> task" where
  "defaultBenchmarkTask E buildDir workspace =
     \<lparr>task_def = \<lparr>def_target = None, def_mode = Some Benchmark, def_filename = None\<rparr>,
      task_scope = workspace, task_name = ''Run benchmarks'', task_source = ''Meson'',
      task_execution = \<lparr>pe_process = mesonPath E,
                        pe_args = [''test'', ''--benchmark'', ''--verbose''],
                        pe_cwd = Some buildDir, pe_env = None\<rparr>,
      task_group = GroupTest\<rparr>"

definition defaultReconfigureTask :: "env \<Rightarrow> string \<Rightarrow> workspace_folder \<Rightarrow> task" where
  "defaultReconfigureTask E buildDir workspace =
     \<lparr>task_def = \<lparr>def_target = None, def_mode = Some Reconfigure, def_filename = None\<rparr>,
      task_scope = workspace, task_name = ''Reconfigure'', task_source = ''Meson'',
      task_execution = \<lparr>pe_process = mesonPath E,
                        pe_args = [''setup'', ''--reconfigure'', buildDir],
                        pe_cwd = Some (uri_fsPath (wf_uri workspace)), pe_env = None\<rparr>,
      task_group = GroupRebuild\<rparr>"

definition defaultCleanTask :: "env \<Rightarrow> string \<Rightarrow> workspace_folder \<Rightarrow> task" where
  "defaultCleanTask E buildDir workspace =
     \<lparr>task_def = \<lparr>def_target = None, def_mode = Some Clean, def_filename = None\<rparr>,
      task_scope = workspace, task_name = ''Clean'', task_source = ''Meson'',
      task_execution = \<lparr>pe_process = mesonPath E, pe_args = [''compile'', ''--clean''],
                        pe_cwd = Some buildDir, pe_env = None\<rparr>,
      task_group = GroupClean\<rparr>"

definition defaultTasks :: "env \<Rightarrow> string \<Rightarrow> workspace_folder \<Rightarrow> task list" where
  "defaultTasks E buildDir workspace =
     [defaultBuildTask E buildDir workspace,
      defaultTestTask E buildDir workspace,
      defaultBenchmarkTask E buildDir workspace,
      defaultReconfigureTask E buildDir workspace,
      defaultCleanTask E buildDir workspace]"

definition buildTask :: "env \<Rightarrow> string \<Rightarrow> workspace_folder \<Rightarrow> string \<Rightarrow> task" where
  "buildTask E buildDir workspace targetName =
     \<lparr>task_def = \<lparr>def_target = Some targetName, def_mode = Some Build, def_filename = None\<rparr>,
      task_scope = workspace, task_name = ''Build '' @ targetName, task_source = ''Meson'',
      task_execution = \<lparr>pe_process = mesonPath E, pe_args = [''compile'', targetName],
                        pe_cwd = Some buildDir, pe_env = None\<rparr>,
      task_group = GroupBuild\<rparr>"

text \<open>The run task of an executable with one output file: \<open>filename[0]\<close>, no options.\<close>

definition runTask :: "workspace_folder \<Rightarrow> string \<Rightarrow> string \<Rightarrow> task" where
  "runTask workspace targetName f =
     \<lparr>task_def = \<lparr>def_target = Some targetName, def_mode = Some Run, def_filename = None\<rparr>,
      task_scope = workspace, task_name = ''Run '' @ targetName, task_source = ''Meson'',
      task_execution = \<lparr>pe_process = f, pe_args = [], pe_cwd = None, pe_env = None\<rparr>,
      task_group = GroupTest\<rparr>"

text \<open>A run task of an executable with several output files, one per file.\<close>

definition runTaskFile :: "workspace_folder \<Rightarrow> string \<Rightarrow> string \<Rightarrow> task" where
  "runTaskFile workspace targetName f =
     \<lparr>task_def = \<lparr>def_target = Some targetName, def_mode = Some Run, def_filename = Some f\<rparr>,
      task_scope = workspace, task_name = ''Run '' @ targetName @ '': '' @ f,
      task_source = ''Meson'',
      task_execution = \<lparr>pe_process = f, pe_args = [],
                        pe_cwd = Some (uri_fsPath (wf_uri workspace)), pe_env = None\<rparr>,
      task_group = GroupTest\<rparr>"

text \<open>The tasks of one target, given its resolved name (the body of \<open>targets.map\<close>).\<close>

definition namedTargetTasks ::
  "env \<Rightarrow> string \<Rightarrow> workspace_folder \<Rightarrow> target \<Rightarrow> string \<Rightarrow> task list" where
  "namedTargetTasks E buildDir workspace t targetName =
     (if target_type t = ''executable'' then
        (case target_filename t of
           [f] \<Rightarrow> [buildTask E buildDir workspace targetName, runTask workspace targetName f]
         | fs \<Rightarrow> buildTask E buildDir workspace targetName
                  # map (runTaskFile workspace targetName) fs)
      else [buildTask E buildDir workspace targetName])"

definition targetTasks ::
  "env \<Rightarrow> string \<Rightarrow> workspace_folder \<Rightarrow> target \<Rightarrow> thrown + task list" where
  "targetTasks E buildDir workspace t =
     (case getTargetName E t of
        Inl e \<Rightarrow> Inl e
      | Inr targetName \<Rightarrow> Inr (namedTargetTasks E buildDir workspace t targetName))"

text \<open>\<open>Promise.all\<close> over results that are already settled: the first rejection wins.\<close>

fun promise_all :: "(thrown + 'a) list \<Rightarrow> thrown + 'a list" where
  "promise_all [] = Inr []"
| "promise_all (Inl e # ps) = Inl e"
| "promise_all (Inr x # ps) = (case promise_all ps of Inl e \<Rightarrow> Inl e | Inr xs \<Rightarrow> Inr (x # xs))"

definition testTask :: "env \<Rightarrow> string \<Rightarrow> workspace_folder \<Rightarrow> test \<Rightarrow> task" where
  "testTask E buildDir workspace t =
     \<lparr>task_def = \<lparr>def_target = Some (test_name t), def_mode = Some Test, def_filename = None\<rparr>,
      task_scope = workspace, task_name = ''Test '' @ test_name t, task_source = ''Meson'',
      task_execution = \<lparr>pe_process = mesonPath E, pe_args = [''test'', test_name t],
                        pe_cwd = Some buildDir, pe_env = Some (test_env t)\<rparr>,
      task_group = GroupTest\<rparr>"

definition benchmarkTask :: "env \<Rightarrow> string \<Rightarrow> workspace_folder \<Rightarrow> test \<Rightarrow> task" where
  "benchmarkTask E buildDir workspace b =
     \<lparr>task_def = \<lparr>def_target = Some (test_name b), def_mode = Some Benchmark,
                  def_filename = None\<rparr>,
      task_scope = workspace, task_name = ''Benchmark '' @ test_name b, task_source = ''Meson'',
      task_execution = \<lparr>pe_process = mesonPath E,
                        pe_args = [''test'', ''--benchmark'', ''--verbose'', test_name b],
                        pe_cwd = Some buildDir, pe_env = Some (test_env b)\<rparr>,
      task_group = GroupTest\<rparr>"

text \<open>
  The \<open>try\<close> block of \<open>getMesonTasksForDir\<close>: the task list, or what was thrown.
  The three fetches are awaited jointly; when more than one fails the model takes the
  one listed first (which one \<open>Promise.all\<close> reports depends on timing, and the
  \<open>catch\<close> block treats them alike).
\<close>

definition synthesizeTasks :: "env \<Rightarrow> string \<Rightarrow> workspace_folder \<Rightarrow> thrown + task list" where
  "synthesizeTasks E buildDir workspace =
     (case getMesonTargetsFromFolder E workspace of
        Inl e \<Rightarrow> Inl e
      | Inr targets \<Rightarrow>
          (case getMesonTests E buildDir of
             Inl e \<Rightarrow> Inl e
           | Inr tests \<Rightarrow>
               (case getMesonBenchmarks E buildDir of
                  Inl e \<Rightarrow> Inl e
                | Inr benchmarks \<Rightarrow>
                    (case promise_all (map (targetTasks E buildDir workspace) targets) of
                       Inl e \<Rightarrow> Inl e
                     | Inr perTarget \<Rightarrow>
                         Inr (defaultTasks E buildDir workspace
                              @ concat perTarget
                              @ map (testTask E buildDir workspace) tests
                              @ map (benchmarkTask E buildDir workspace) benchmarks)))))"

text \<open>The \<open>catch\<close> block: log what was thrown, its \<open>stderr\<close> if it has one, and notify.\<close>

definition couldNotFetch :: "thrown \<Rightarrow> effect list" where
  "couldNotFetch e =
     AppendThrown e
     # (case e of
          ExecRejected r \<Rightarrow> (if rej_stderr r \<noteq> [] then [AppendLine (rej_stderr r)] else [])
        | SyntaxError m \<Rightarrow> []
        | TypeError m \<Rightarrow> [])
     @ [ShowErrorMessage ''Could not fetch targets. See Meson Build output tab for more info.'']"

definition getMesonTasksForDir ::
  "env \<Rightarrow> string \<Rightarrow> workspace_folder \<Rightarrow> task list \<times> effect list" where
  "getMesonTasksForDir E buildDir workspace =
     (case synthesizeTasks E buildDir workspace of
        Inr tasks \<Rightarrow> (tasks, [])
      | Inl e \<Rightarrow> ([], couldNotFetch e))"

text \<open>\<open>getMesonTasks\<close>: the folders whose build directory exists, concatenated.\<close>

definition getMesonTasks :: "env \<Rightarrow> workspace_folder list \<Rightarrow> task list \<times> effect list" where
  "getMesonTasks E workspaceFolders =
     (let rs = map (\<lambda>wsFolder. getMesonTasksForDir E (buildDirOf E wsFolder) wsFolder)
                 (filter (\<lambda>wsFolder. existsSync E (buildDirOf E wsFolder)) workspaceFolders)
      in (concat (map fst rs), concat (map snd rs)))"

section \<open>The debug configuration provider\<close>

definition targetDebugConfiguration :: "env \<Rightarrow> workspace_folder \<Rightarrow> target \<Rightarrow> string \<Rightarrow> jsobject" where
  "targetDebugConfiguration E ws t targetName =
     [''type'' \<mapsto> JStr ''cppdbg'',
      ''name'' \<mapsto> JStr (target_name t),
      ''request'' \<mapsto> JStr ''launch'',
      ''cwd'' \<mapsto> JStr (buildDirOf E ws),
      ''program'' \<mapsto> (case target_filename t of [] \<Rightarrow> JUndefined | f # _ \<Rightarrow> JStr f),
      ''preLaunchTask'' \<mapsto> JStr (''Meson: Build '' @ targetName)]"

definition isNative :: "target \<Rightarrow> bool" where
  "isNative t = list_ex (\<lambda>source. List.member [''cpp'', ''c''] (src_language source))
                  (target_sources t)"

text \<open>The loop over the executables; the first failing \<open>getTargetName\<close> is rethrown.\<close>

fun debugConfigurations :: "env \<Rightarrow> target list \<Rightarrow> thrown + jsobject list" where
  "debugConfigurations E [] = Inr []"
| "debugConfigurations E (t # executables) =
     (if \<not> isNative t then debugConfigurations E executables
      else
        (case getTargetName E t of
           Inl e \<Rightarrow> Inl e
         | Inr targetName \<Rightarrow>
             (case target_workspace t of
                None \<Rightarrow> Inl (TypeError ''Cannot read properties of undefined (reading 'uri')'')
              | Some ws \<Rightarrow>
                  (case debugConfigurations E executables of
                     Inl e \<Rightarrow> Inl e
                   | Inr ret \<Rightarrow>
                       Inr (spread (debugOptions E) (targetDebugConfiguration E ws t targetName)
                            # ret)))))"

text \<open>\<open>provideDebugConfigurations\<close>, with \<open>folder ?? workspaceFolders[0]\<close>.\<close>

definition provideDebugConfigurations ::
  "env \<Rightarrow> workspace_folder list \<Rightarrow> workspace_folder option \<Rightarrow> thrown + jsobject list" where
  "provideDebugConfigurations E workspaceFolders folder =
     (case (case folder of Some f \<Rightarrow> Some f
                         | None \<Rightarrow> (case workspaceFolders of [] \<Rightarrow> None | f # _ \<Rightarrow> Some f)) of
        None \<Rightarrow> Inl (TypeError ''Cannot read properties of undefined (reading 'uri')'')
      | Some f \<Rightarrow>
          (case getMesonTargetsFromFolder E f of
             Inl e \<Rightarrow> Inl e
           | Inr targets \<Rightarrow>
               debugConfigurations E (filter (\<lambda>t. target_type t = ''executable'') targets)))"

section \<open>Notions used in the statements\<close>

text \<open>
  Named parts of the functions above and predicates on their results, so that the
  properties below can be stated briefly.
\<close>

text \<open>The item \<open>rebuildTestsForFolder\<close> creates for a test name.\<close>

definition leaf :: "uri \<Rightarrow> string \<Rightarrow> test_item" where
  "leaf u n = createTestItem n n (Some u)"

text \<open>The test of the first \<open>forEach\<close>: no fetched test has this id.\<close>

definition stale :: "test list \<Rightarrow> string \<Rightarrow> bool" where
  "stale tests k = (\<not> list_ex (\<lambda>t. k = test_name t) tests)"

text \<open>Both passes of \<open>rebuildTestsForFolder\<close> on a fetched test list.\<close>

definition reconcile :: "test list \<Rightarrow> uri \<Rightarrow> test_item list \<Rightarrow> coll_state" where
  "reconcile tests u c =
     fold (\<lambda>t s. collection_add (leaf u (test_name t)) s) tests
       (fold (\<lambda>item s. if stale tests (item_id item) then collection_delete (item_id item) s else s)
          c (c, []))"

text \<open>The two conditions under which the closing \<open>forEach\<close> deletes a node.\<close>

definition prunable :: "workspace_folder list \<Rightarrow> test_item \<Rightarrow> bool" where
  "prunable workspaceFolders item =
     (item_children item = [] \<or>
      \<not> list_ex (\<lambda>wsFolder. uri_path (wf_uri wsFolder) = item_id item) workspaceFolders)"





text \<open>The argument vector of the build that \<open>prepareTestInFolder\<close> runs.\<close>

definition compileArgs :: "env \<Rightarrow> workspace_folder \<Rightarrow> target list \<Rightarrow> string list" where
  "compileArgs E wsFolder required =
     [''compile'', ''-C'', buildDirOf E wsFolder] @ map target_name required"

text \<open>The launch configuration \<open>prepareTestInFolder\<close> returns for a test.\<close>

definition testLaunch :: "env \<Rightarrow> workspace_folder \<Rightarrow> test \<Rightarrow> jsobject" where
  "testLaunch E wsFolder t =
     spread (testDebugConfiguration (buildDirOf E wsFolder) t) (debugOptions E)"

text \<open>What \<open>getMesonTargetsFromFolder\<close> does to each target.\<close>

definition tag :: "workspace_folder \<Rightarrow> target \<Rightarrow> target" where
  "tag folder t = t\<lparr>target_workspace := Some folder\<rparr>"

definition isRun :: "task \<Rightarrow> bool" where
  "isRun k = (def_mode (task_def k) = Some Run)"

definition isTargetBuild :: "task \<Rightarrow> bool" where
  "isTargetBuild k = (def_mode (task_def k) = Some Build \<and> def_target (task_def k) \<noteq> None)"

definition hasNoTarget :: "task \<Rightarrow> bool" where
  "hasNoTarget k = (def_target (task_def k) = None)"

text \<open>Mode, arguments and working directory of a task.\<close>

definition invocation :: "task \<Rightarrow> mode option \<times> string list \<times> string option" where
  "invocation k = (def_mode (task_def k), pe_args (task_execution k), pe_cwd (task_execution k))"

text \<open>
  An introspection call that \<open>getMesonTasksForDir\<close> makes fails: one of the three
  fetches, or the build options that \<open>getTargetName\<close> reads when there is a target.
\<close>

definition introspectionFails :: "env \<Rightarrow> string \<Rightarrow> workspace_folder \<Rightarrow> bool" where
  "introspectionFails E buildDir workspace =
     (isl (getMesonTargets E (buildDirOf E workspace)) \<or>
      isl (getMesonTests E buildDir) \<or>
      isl (getMesonBenchmarks E buildDir) \<or>
      (getMesonTargets E (buildDirOf E workspace) \<noteq> Inr [] \<and>
       isl (getMesonBuildOptions E (buildDirOf E workspace))))"

text \<open>The run tasks among the tasks of one target of the folder.\<close>

definition targetRunTasks ::
  "env \<Rightarrow> string \<Rightarrow> workspace_folder \<Rightarrow> target \<Rightarrow> string \<Rightarrow> task list" where
  "targetRunTasks E buildDir workspace t targetName =
     filter isRun (namedTargetTasks E buildDir workspace (tag workspace t) targetName)"

text \<open>A path segment that normalisation leaves alone.\<close>

definition clean :: "string \<Rightarrow> bool" where
  "clean s = (s \<noteq> [] \<and> \<not> List.member s CHR ''/'' \<and> s \<noteq> ''.'' \<and> s \<noteq> ''..'')"

text \<open>The absolute POSIX path with the given segments.\<close>

definition abs_path :: "string list \<Rightarrow> string" where
  "abs_path segs = CHR ''/'' # join_sep segs"

text \<open>The targets \<open>provideDebugConfigurations\<close> keeps.\<close>

definition debuggable :: "target \<Rightarrow> bool" where
  "debuggable t = (target_type t = ''executable'' \<and> isNative t)"

text \<open>The configuration pushed for a target: the synthesized fields are spread last.\<close>

definition targetLaunch :: "env \<Rightarrow> workspace_folder \<Rightarrow> target \<Rightarrow> string \<Rightarrow> jsobject" where
  "targetLaunch E ws t targetName =
     spread (debugOptions E) (targetDebugConfiguration E ws t targetName)"

text \<open>\<open>folder ?? vscode.workspace.workspaceFolders[0]\<close>.\<close>

definition chosenFolder ::
  "workspace_folder list \<Rightarrow> workspace_folder option \<Rightarrow> workspace_folder option" where
  "chosenFolder workspaceFolders folder =
     (case folder of
        Some f \<Rightarrow> Some f
      | None \<Rightarrow> (case workspaceFolders of [] \<Rightarrow> None | f # _ \<Rightarrow> Some f))"

text \<open>The value of one key in each returned launch configuration.\<close>

definition launchField ::
  "string \<Rightarrow> thrown + (workspace_folder \<times> jsobject) list \<times> effect list \<Rightarrow> jsval option list" where
  "launchField k r = (case r of Inl e \<Rightarrow> [] | Inr p \<Rightarrow> map (\<lambda>c. snd c k) (fst p))"

section \<open>A sample workspace\<close>

text \<open>
  A POSIX host with the folder \<open>/ws\<close> configured in \<open>/ws/builddir\<close> (layout
  \<open>mirror\<close>), a second folder \<open>/other\<close> that has no build directory, two tests and
  three targets. The properties below are instantiated on it.
\<close>

definition ws_uri :: uri where
  "ws_uri = \<lparr>uri_fsPath = ''/ws'', uri_path = ''/ws''\<rparr>"

definition ws_folder :: workspace_folder where
  "ws_folder = \<lparr>wf_uri = ws_uri, wf_name = ''ws''\<rparr>"

definition other_folder :: workspace_folder where
  "other_folder = \<lparr>wf_uri = \<lparr>uri_fsPath = ''/other'', uri_path = ''/other''\<rparr>, wf_name = ''other''\<rparr>"

definition unit_test :: test where
  "unit_test = \<lparr>test_name = ''unit'', test_cmd = [''env'', ''--'', ''/bin/prog'', ''--flag''],
                 test_workdir = None, test_env = [(''X'', ''1'')], test_depends = [''foo@exe'']\<rparr>"

definition smoke_test :: test where
  "smoke_test = \<lparr>test_name = ''smoke'', test_cmd = [''/ws/builddir/smoke''],
                  test_workdir = Some ''/tmp'', test_env = [], test_depends = []\<rparr>"

definition foo_target :: target where
  "foo_target = \<lparr>target_name = ''foo'', target_id = ''foo@exe'', target_type = ''executable'',
                  target_filename = [''/ws/builddir/sub/dir/foo''],
                  target_sources = [\<lparr>src_language = ''c''\<rparr>],
                  target_defined_in = ''/ws/sub/dir/meson.build'', target_workspace = None\<rparr>"

definition util_target :: target where
  "util_target = \<lparr>target_name = ''util'', target_id = ''util@sta'',
                   target_type = ''static library'',
                   target_filename = [''/ws/builddir/libutil.a''],
                   target_sources = [\<lparr>src_language = ''c''\<rparr>],
                   target_defined_in = ''/ws/meson.build'', target_workspace = None\<rparr>"

definition tool_target :: target where
  "tool_target = \<lparr>target_name = ''tool'', target_id = ''tool@exe'', target_type = ''executable'',
                   target_filename = [''/ws/builddir/tool'', ''/ws/builddir/tool.dbg''],
                   target_sources = [\<lparr>src_language = ''vala''\<rparr>],
                   target_defined_in = ''/ws/meson.build'', target_workspace = None\<rparr>"

definition malformed :: thrown where
  "malformed = SyntaxError ''Unexpected end of JSON input''"

definition sample_env :: env where
  "sample_env =
     \<lparr>path_resolve = posix_resolve ''/'', path_relative = posix_relative ''/'',
      path_dirname = posix_dirname,
      mesonPath = ''meson'', buildFolder = ''builddir'', debugOptions = Map.empty,
      existsSync = (\<lambda>p. p = ''/ws/builddir''),
      execFile = (\<lambda>command args. exited 0 ''ok'' [] 12),
      getMesonTargets =
        (\<lambda>d. if d = ''/ws/builddir'' then Inr [foo_target, util_target, tool_target]
              else Inl malformed),
      getMesonTests =
        (\<lambda>d. if d = ''/ws/builddir'' then Inr [unit_test, smoke_test] else Inl malformed),
      getMesonBenchmarks = (\<lambda>d. if d = ''/ws/builddir'' then Inr [] else Inl malformed),
      getMesonBuildOptions =
        (\<lambda>d. if d = ''/ws/builddir''
              then Inr [\<lparr>opt_name = ''buildtype'', opt_value = JStr ''debug''\<rparr>,
                        \<lparr>opt_name = ''layout'', opt_value = JStr ''mirror''\<rparr>]
              else Inl malformed),
      getMesonProjectInfo =
        (\<lambda>d. if d = ''/ws/builddir'' then Inr \<lparr>descriptive_name = ''demo''\<rparr>
              else Inl malformed)\<rparr>"

text \<open>A test tree left over from an earlier scan, with a node of a closed folder.\<close>

definition stale_tree :: "test_item list" where
  "stale_tree =
     [TestItem ''/ws'' ''demo'' None [leaf ws_uri ''old'', TestItem ''unit'' ''renamed'' None []],
      TestItem ''/other'' ''other'' None [leaf ws_uri ''x''],
      TestItem ''/gone'' ''gone'' None [leaf ws_uri ''y'']]"

text \<open>The sample host with user \<open>debugOptions\<close> that name \<open>cwd\<close> and \<open>program\<close>.\<close>

definition custom_env :: env where
  "custom_env = sample_env\<lparr>debugOptions := [''cwd'' \<mapsto> JStr ''/tmp'',
                                               ''program'' \<mapsto> JStr ''/usr/bin/gdbserver'']\<rparr>"

text \<open>A host where fetching the tests of \<open>/ws/builddir\<close> fails and \<open>/other\<close> is configured.\<close>

definition broken_env :: env where
  "broken_env = sample_env
     \<lparr>existsSync := (\<lambda>p. True),
      getMesonTargets := (\<lambda>d. Inr []),
      getMesonTests := (\<lambda>d. if d = ''/ws/builddir''
                              then Inl (ExecRejected \<lparr>rej_code = ExitCode 1, rej_stdout = [],
                                                      rej_stderr = ''not a build directory''\<rparr>)
                              else Inr []),
      getMesonBenchmarks := (\<lambda>d. Inr [])\<rparr>"

text \<open>The sample host with another layout.\<close>

definition flat_env :: env where
  "flat_env = sample_env
     \<lparr>getMesonBuildOptions := (\<lambda>d. Inr [\<lparr>opt_name = ''layout'', opt_value = JStr ''flat''\<rparr>])\<rparr>"





section \<open>Lemmas\<close>

lemma find_items_add:
  "find (\<lambda>i. item_id i = k) (items_add x c) =
     (if k = item_id x then Some x else find (\<lambda>i. item_id i = k) c)"
  by (induction c) auto

lemma items_add_same:
  "find (\<lambda>i. item_id i = item_id x) c = Some x \<Longrightarrow> items_add x c = c"
  by (induction c) (auto split: if_splits)

lemma ids_items_add: "item_id ` set (items_add x c) = insert (item_id x) (item_id ` set c)"
  by (induction c) auto

lemma fold_delete_fst:
  "fst (fold (\<lambda>item s. if bad (item_id item) then collection_delete (item_id item) s else s) xs s)
     = filter (\<lambda>x. \<forall>y\<in>set xs. bad (item_id y) \<longrightarrow> item_id y \<noteq> item_id x) (fst s)"
  by (induction xs arbitrary: s) (auto simp: collection_delete_def items_delete_def intro: filter_cong)

lemma fold_delete_snd:
  "snd (fold (\<lambda>item s. if bad (item_id item) then collection_delete (item_id item) s else s) xs s)
     = snd s @ map (\<lambda>x. OpDelete (item_id x)) (filter (\<lambda>x. bad (item_id x)) xs)"
  by (induction xs arbitrary: s) (auto simp: collection_delete_def)

lemma fold_add_snd:
  "snd (fold (\<lambda>t s. collection_add (mk (nm t)) s) ts s) = snd s @ map (\<lambda>t. OpAdd (mk (nm t))) ts"
  by (induction ts arbitrary: s) (auto simp: collection_add_def)

lemma fold_add_ids:
  assumes "\<And>n. item_id (mk n) = n"
  shows "item_id ` set (fst (fold (\<lambda>t s. collection_add (mk (nm t)) s) ts s))
     = item_id ` set (fst s) \<union> nm ` set ts"
  using assms by (induction ts arbitrary: s) (auto simp: collection_add_def ids_items_add)

lemma fold_add_find_keep:
  assumes "\<And>n. item_id (mk n) = n"
  shows "find (\<lambda>i. item_id i = n) (fst s) = Some (mk n) \<Longrightarrow>
         find (\<lambda>i. item_id i = n) (fst (fold (\<lambda>t s. collection_add (mk (nm t)) s) ts s)) = Some (mk n)"
  using assms by (induction ts arbitrary: s) (auto simp: collection_add_def find_items_add)

lemma fold_add_find_in:
  assumes "\<And>n. item_id (mk n) = n"
  shows "n \<in> nm ` set ts \<Longrightarrow>
         find (\<lambda>i. item_id i = n) (fst (fold (\<lambda>t s. collection_add (mk (nm t)) s) ts s)) = Some (mk n)"
proof (induction ts arbitrary: s)
  case Nil
  then show ?case by simp
next
  case (Cons t ts)
  show ?case
  proof (cases "n \<in> nm ` set ts")
    case True
    then show ?thesis using Cons.IH by simp
  next
    case False
    with Cons.prems have n: "n = nm t" by auto
    have "find (\<lambda>i. item_id i = n) (fst (collection_add (mk (nm t)) s)) = Some (mk n)"
      using assms n by (simp add: collection_add_def find_items_add)
    then show ?thesis using fold_add_find_keep [OF assms] by simp
  qed
qed

lemma fold_add_noop:
  assumes "\<And>n. item_id (mk n) = n"
  shows "\<forall>t\<in>set ts. find (\<lambda>i. item_id i = nm t) (fst s) = Some (mk (nm t)) \<Longrightarrow>
         fst (fold (\<lambda>t s. collection_add (mk (nm t)) s) ts s) = fst s"
  using assms by (induction ts arbitrary: s) (auto simp: collection_add_def items_add_same)

lemma fold_delete_none:
  "\<forall>x\<in>set xs. \<not> bad (item_id x) \<Longrightarrow>
   fold (\<lambda>item s. if bad (item_id item) then collection_delete (item_id item) s else s) xs s = s"
  by (induction xs arbitrary: s) auto

lemma item_id_leaf: "item_id (leaf u n) = n"
  by (simp add: leaf_def createTestItem_def)

lemma stale_iff: "stale tests k \<longleftrightarrow> k \<notin> test_name ` set tests"
  by (auto simp: stale_def list_ex_iff)

lemma rebuildTestsForFolder_reconcile:
  "getMesonTests E (buildDirOf E folder) = Inr tests \<Longrightarrow>
   rebuildTestsForFolder E c folder = Inr (reconcile tests (wf_uri folder) c)"
  by (simp add: rebuildTestsForFolder_def reconcile_def stale_def leaf_def)

lemma kept_not_stale:
  "x \<in> set (fst (fold (\<lambda>item s. if stale tests (item_id item)
                                  then collection_delete (item_id item) s else s) c (c, []))) \<Longrightarrow>
   \<not> stale tests (item_id x)"
  by (auto simp: fold_delete_fst [where bad = "stale tests"])

lemma reconcile_ids: "item_id ` set (fst (reconcile tests u c)) = test_name ` set tests"
proof -
  have "item_id ` set (fst (reconcile tests u c)) =
          item_id ` set (fst (fold (\<lambda>item s. if stale tests (item_id item)
                                  then collection_delete (item_id item) s else s) c (c, [])))
          \<union> test_name ` set tests"
    unfolding reconcile_def
    by (rule fold_add_ids [where mk = "leaf u", OF item_id_leaf])
  moreover have "item_id ` set (fst (fold (\<lambda>item s. if stale tests (item_id item)
                                  then collection_delete (item_id item) s else s) c (c, [])))
          \<subseteq> test_name ` set tests"
    using kept_not_stale [of _ tests c] by (auto simp: stale_iff)
  ultimately show ?thesis by blast
qed

lemma reconcile_find:
  "t \<in> set tests \<Longrightarrow>
   find (\<lambda>i. item_id i = test_name t) (fst (reconcile tests u c)) = Some (leaf u (test_name t))"
  unfolding reconcile_def
  by (rule fold_add_find_in [where mk = "leaf u", OF item_id_leaf]) simp

lemma reconcile_fixpoint:
  assumes "c1 = fst (reconcile tests u c)"
  shows "reconcile tests u c1 = (c1, map (\<lambda>t. OpAdd (leaf u (test_name t))) tests)"
proof -
  have none: "\<forall>x\<in>set c1. \<not> stale tests (item_id x)"
    using reconcile_ids [of tests u c] assms by (auto simp: stale_iff)
  let ?s1 = "fold (\<lambda>item s. if stale tests (item_id item) then collection_delete (item_id item) s else s) c1 (c1, [])"
  have s1: "?s1 = (c1, [])"
    using none by (rule fold_delete_none)
  have present: "\<forall>t\<in>set tests. find (\<lambda>i. item_id i = test_name t) (fst (c1, [])) = Some (leaf u (test_name t))"
    using assms by (simp add: reconcile_find)
  have "fst (reconcile tests u c1) = c1"
    unfolding reconcile_def s1
    using fold_add_noop [where mk = "leaf u" and nm = test_name, OF item_id_leaf present] by simp
  moreover have "snd (reconcile tests u c1) = map (\<lambda>t. OpAdd (leaf u (test_name t))) tests"
    unfolding reconcile_def s1 by (simp add: fold_add_snd)
  ultimately show ?thesis by (simp add: prod_eq_iff)
qed

lemma fst_prune_item:
  "fst (prune_item wfs item st) =
     (if prunable wfs item then items_delete (item_id item) (fst st) else fst st)"
  by (simp add: prune_item_def prunable_def)

lemma fst_fold_prune:
  "fst (fold (prune_item wfs) xs st) =
     filter (\<lambda>x. \<forall>y\<in>set xs. prunable wfs y \<longrightarrow> item_id y \<noteq> item_id x) (fst st)"
proof (induction xs arbitrary: st)
  case Nil
  then show ?case by simp
next
  case (Cons a xs)
  show ?case
    by (simp add: Cons.IH fst_prune_item items_delete_def) (auto intro: filter_cong)
qed

lemma fold_prune_kept:
  assumes "x \<in> set (fst (fold (prune_item wfs) (fst st) st))"
  shows "\<not> prunable wfs x"
  using assms by (auto simp: fst_fold_prune)






lemma getMesonTargetsFromFolder_Inr:
  "getMesonTargets E (buildDirOf E folder) = Inr targets \<Longrightarrow>
   getMesonTargetsFromFolder E folder = Inr (map (tag folder) targets)"
  by (simp add: getMesonTargetsFromFolder_def tag_def)

lemma promise_all_targetTasks:
  "list_all2 (\<lambda>t n. getTargetName E t = Inr n) ts names \<Longrightarrow>
   promise_all (map (targetTasks E buildDir workspace) ts) =
     Inr (map (\<lambda>p. namedTargetTasks E buildDir workspace (fst p) (snd p)) (zip ts names))"
  by (induction ts names rule: list_all2_induct) (simp_all add: targetTasks_def)

lemma filter_build_named:
  "filter isTargetBuild (namedTargetTasks E buildDir workspace t n) = [buildTask E buildDir workspace n]"
  by (auto simp: namedTargetTasks_def isTargetBuild_def buildTask_def runTask_def runTaskFile_def
      filter_empty_conv split: list.splits)

lemma filter_notarget_named:
  "filter hasNoTarget (namedTargetTasks E buildDir workspace t n) = []"
  by (auto simp: namedTargetTasks_def hasNoTarget_def buildTask_def runTask_def runTaskFile_def
      filter_empty_conv split: list.splits)

lemma filter_build_concat:
  "length ts = length names \<Longrightarrow>
   filter isTargetBuild
     (concat (map (\<lambda>p. namedTargetTasks E buildDir workspace (fst p) (snd p)) (zip ts names))) =
   map (buildTask E buildDir workspace) names"
  by (induction ts names rule: list_induct2) (simp_all add: filter_build_named)

lemma filter_notarget_concat:
  "filter hasNoTarget
     (concat (map (\<lambda>p. namedTargetTasks E buildDir workspace (fst p) (snd p)) ps)) = []"
  by (induction ps) (simp_all add: filter_notarget_named)

lemma filter_default:
  "filter isTargetBuild (defaultTasks E buildDir workspace) = []"
  "filter hasNoTarget (defaultTasks E buildDir workspace) = defaultTasks E buildDir workspace"
  by (simp_all add: defaultTasks_def isTargetBuild_def hasNoTarget_def defaultBuildTask_def
      defaultTestTask_def defaultBenchmarkTask_def defaultReconfigureTask_def defaultCleanTask_def)

lemma filter_tests:
  "filter isTargetBuild (map (testTask E buildDir workspace) tests) = []"
  "filter hasNoTarget (map (testTask E buildDir workspace) tests) = []"
  "filter isTargetBuild (map (benchmarkTask E buildDir workspace) tests) = []"
  "filter hasNoTarget (map (benchmarkTask E buildDir workspace) tests) = []"
  by (simp_all add: filter_empty_conv isTargetBuild_def hasNoTarget_def testTask_def benchmarkTask_def)

lemma invocation_default:
  "map invocation (defaultTasks E buildDir workspace) =
     [(Some Build, [''compile''], Some buildDir),
      (Some Test, [''test''], Some buildDir),
      (Some Benchmark, [''test'', ''--benchmark'', ''--verbose''], Some buildDir),
      (Some Reconfigure, [''setup'', ''--reconfigure'', buildDir],
         Some (uri_fsPath (wf_uri workspace))),
      (Some Clean, [''compile'', ''--clean''], Some buildDir)]"
  by (simp add: defaultTasks_def invocation_def defaultBuildTask_def
      defaultTestTask_def defaultBenchmarkTask_def defaultReconfigureTask_def defaultCleanTask_def)

lemma filter_run_fixed:
  "filter isRun (defaultTasks E buildDir workspace) = []"
  "filter isRun (map (testTask E buildDir workspace) tests) = []"
  "filter isRun (map (benchmarkTask E buildDir workspace) tests) = []"
  by (simp_all add: filter_empty_conv isRun_def testTask_def benchmarkTask_def defaultTasks_def
      defaultBuildTask_def defaultTestTask_def defaultBenchmarkTask_def
      defaultReconfigureTask_def defaultCleanTask_def)

lemma filter_run_concat:
  "filter isRun
     (concat (map (\<lambda>p. namedTargetTasks E buildDir workspace (fst p) (snd p))
                (zip (map (tag workspace) targets) names))) =
   concat (map (\<lambda>p. targetRunTasks E buildDir workspace (fst p) (snd p)) (zip targets names))"
  by (simp add: filter_concat zip_map1 comp_def targetRunTasks_def case_prod_beta)

lemma targetRunTasks_executable:
  assumes "target_type t = ''executable''"
  shows "targetRunTasks E buildDir workspace t targetName =
           (if length (target_filename t) = 1
            then [runTask workspace targetName (hd (target_filename t))]
            else map (runTaskFile workspace targetName) (target_filename t))"
proof -
  have nb: "\<not> isRun (buildTask E buildDir workspace targetName)"
    by (simp add: isRun_def buildTask_def)
  have f: "filter isRun (map (runTaskFile workspace targetName) fs) =
      map (runTaskFile workspace targetName) fs" for fs
    by (induction fs) (simp_all add: isRun_def runTaskFile_def)
  have r: "isRun (runTask workspace targetName x)" for x
    by (simp add: isRun_def runTask_def)
  have shape: "namedTargetTasks E buildDir workspace (tag workspace t) targetName =
      (if length (target_filename t) = 1
       then [buildTask E buildDir workspace targetName,
             runTask workspace targetName (hd (target_filename t))]
       else buildTask E buildDir workspace targetName
            # map (runTaskFile workspace targetName) (target_filename t))"
    using assms by (auto simp: namedTargetTasks_def tag_def split: list.splits)
  show ?thesis
    by (simp add: targetRunTasks_def shape nb f r)
qed

lemma promise_all_Inl:
  "ps \<noteq> [] \<Longrightarrow> \<forall>p\<in>set ps. isl p \<Longrightarrow> isl (promise_all ps)"
  by (cases ps; cases "hd ps") auto

lemma synthesizeTasks_fails:
  assumes "introspectionFails E buildDir workspace"
  shows "isl (synthesizeTasks E buildDir workspace)"
proof (cases "getMesonTargets E (buildDirOf E workspace)")
  case (Inl e)
  then show ?thesis by (simp add: synthesizeTasks_def getMesonTargetsFromFolder_def)
next
  case (Inr targets)
  note tg = getMesonTargetsFromFolder_Inr [OF Inr]
  show ?thesis
  proof (cases "getMesonTests E buildDir")
    case (Inl e)
    then show ?thesis by (simp add: synthesizeTasks_def tg)
  next
    case tests: (Inr tests)
    show ?thesis
    proof (cases "getMesonBenchmarks E buildDir")
      case (Inl e)
      then show ?thesis by (simp add: synthesizeTasks_def tg tests)
    next
      case benchmarks: (Inr benchmarks)
      from assms Inr tests benchmarks
      have ne: "targets \<noteq> []" and bo: "isl (getMesonBuildOptions E (buildDirOf E workspace))"
        by (auto simp: introspectionFails_def)
      have "\<forall>p\<in>set (map (targetTasks E buildDir workspace) (map (tag workspace) targets)). isl p"
        using bo by (auto simp: targetTasks_def getTargetName_def tag_def split: sum.splits)
      with ne have "isl (promise_all (map (targetTasks E buildDir workspace) (map (tag workspace) targets)))"
        by (intro promise_all_Inl) simp_all
      then show ?thesis
        by (auto simp: synthesizeTasks_def tg tests benchmarks split: sum.splits)
    qed
  qed
qed

lemma last_couldNotFetch:
  "last (couldNotFetch e) =
     ShowErrorMessage ''Could not fetch targets. See Meson Build output tab for more info.''"
  by (simp add: couldNotFetch_def)

lemma getMesonTasks_append:
  "getMesonTasks E (xs @ ys) =
     (fst (getMesonTasks E xs) @ fst (getMesonTasks E ys),
      snd (getMesonTasks E xs) @ snd (getMesonTasks E ys))"
  by (simp add: getMesonTasks_def Let_def)

lemma clean_simps: "clean s \<Longrightarrow> s \<noteq> [] \<and> CHR ''/'' \<notin> set s \<and> s \<noteq> ''.'' \<and> s \<noteq> ''..''"
  by (simp add: clean_def)

lemma split_sep_nonempty: "split_sep x \<noteq> []"
  by (induction x) (auto split: list.splits)

lemma split_sep_nosep: "CHR ''/'' \<notin> set s \<Longrightarrow> split_sep s = [s]"
  by (induction s) auto

lemma split_sep_append: "split_sep (x @ CHR ''/'' # y) = split_sep x @ split_sep y"
proof (induction x)
  case Nil
  then show ?case by simp
next
  case (Cons c x)
  then show ?case using split_sep_nonempty [of x]
    by (cases "split_sep x") auto
qed

lemma split_join:
  "segs \<noteq> [] \<Longrightarrow> \<forall>s\<in>set segs. CHR ''/'' \<notin> set s \<Longrightarrow> split_sep (join_sep segs) = segs"
  by (induction segs rule: join_sep.induct) (simp_all add: split_sep_nosep split_sep_append)

lemma normalizeSegments_append:
  "normalizeSegments a res (xs @ ys) = normalizeSegments a (normalizeSegments a res xs) ys"
  by (induction xs arbitrary: res) auto

lemma normalizeSegments_clean:
  "\<forall>s\<in>set segs. clean s \<Longrightarrow> normalizeSegments a res segs = res @ segs"
  by (induction segs arbitrary: res) (auto dest: clean_simps)

lemma join_sep_snoc: "xs \<noteq> [] \<Longrightarrow> join_sep (xs @ [y]) = join_sep xs @ CHR ''/'' # y"
  by (induction xs rule: join_sep.induct) simp_all

lemma join_sep_nonempty: "segs \<noteq> [] \<Longrightarrow> \<forall>s\<in>set segs. s \<noteq> [] \<Longrightarrow> join_sep segs \<noteq> []"
  by (induction segs rule: join_sep.induct) simp_all

lemma hd_join_sep: "segs \<noteq> [] \<Longrightarrow> \<forall>s\<in>set segs. s \<noteq> [] \<Longrightarrow> hd (join_sep segs) = hd (hd segs)"
  by (induction segs rule: join_sep.induct) simp_all

lemma last_join_sep: "segs \<noteq> [] \<Longrightarrow> \<forall>s\<in>set segs. s \<noteq> [] \<Longrightarrow> last (join_sep segs) = last (last segs)"
  by (induction segs rule: join_sep.induct) (simp_all add: join_sep_nonempty)

lemma segments_abs_path:
  assumes "\<forall>s\<in>set segs. clean s"
  shows "normalizeSegments False [] (split_sep (abs_path segs)) = segs"
proof (cases "segs = []")
  case True
  then show ?thesis by (simp add: abs_path_def)
next
  case False
  have "split_sep (join_sep segs) = segs"
    using False assms by (intro split_join) (auto dest: clean_simps)
  then show ?thesis using assms by (simp add: abs_path_def normalizeSegments_clean)
qed

lemma segments_abs_path_slash:
  assumes "\<forall>s\<in>set segs. clean s"
  shows "normalizeSegments False [] (split_sep (abs_path segs @ ''/'')) = segs"
  using segments_abs_path [OF assms]
  by (simp add: split_sep_append normalizeSegments_append)

lemma resolve_abs_path:
  assumes "\<forall>s\<in>set segs. clean s"
  shows "posix_resolve cwd [] (abs_path segs) = abs_path segs"
proof -
  have a: "isAbsolute (abs_path segs)" by (simp add: isAbsolute_def abs_path_def)
  have p: "prepend_path (abs_path segs) [] = abs_path segs @ ''/''"
    by (simp add: prepend_path_def abs_path_def)
  show ?thesis
    using segments_abs_path_slash [OF assms]
    by (simp add: posix_resolve_def a p normalizeString_def) (simp add: abs_path_def)
qed

lemma abs_path_inj:
  assumes "\<forall>s\<in>set xs. clean s" and "\<forall>s\<in>set ys. clean s" and "abs_path xs = abs_path ys"
  shows "xs = ys"
proof -
  have "xs = normalizeSegments False [] (split_sep (abs_path xs))"
    using segments_abs_path [OF assms(1)] by (rule sym)
  also have "\<dots> = normalizeSegments False [] (split_sep (abs_path ys))"
    by (simp only: assms(3))
  also have "\<dots> = ys"
    by (rule segments_abs_path [OF assms(2)])
  finally show ?thesis .
qed

lemma drop_common_prefix: "drop_common xs (xs @ ys) = ([], ys)"
proof (induction xs)
  case Nil
  then show ?case by (cases ys) simp_all
next
  case (Cons a xs)
  then show ?case by simp
qed

lemma relative_abs_path:
  assumes "\<forall>s\<in>set rs. clean s" and "\<forall>s\<in>set ds. clean s"
  shows "posix_relative cwd (abs_path rs) (abs_path (rs @ ds)) = join_sep ds"
proof (cases "ds = []")
  case True
  then show ?thesis by (simp add: posix_relative_def)
next
  case False
  have all: "\<forall>s\<in>set (rs @ ds). clean s" using assms by auto
  have ne: "abs_path rs \<noteq> abs_path (rs @ ds)"
    using abs_path_inj [OF assms(1) all] False by auto
  show ?thesis
    using ne
    by (simp add: posix_relative_def resolve_abs_path [OF assms(1)] resolve_abs_path [OF all]
        segments_abs_path [OF assms(1)] segments_abs_path [OF all] drop_common_prefix Let_def)
qed

lemma dropWhile_last_segment:
  assumes "xs \<noteq> []" and "CHR ''/'' \<notin> set xs"
  shows "dropWhile (\<lambda>x. x \<noteq> CHR ''/'') (dropWhile (\<lambda>x. x = CHR ''/'') (xs @ r)) =
         dropWhile (\<lambda>x. x \<noteq> CHR ''/'') r"
proof -
  from assms(1) obtain a as where xs: "xs = a # as" by (cases xs) auto
  with assms(2) have a: "a \<noteq> CHR ''/''" and as: "\<And>x. x \<in> set as \<Longrightarrow> x \<noteq> CHR ''/''"
    by auto
  have "dropWhile (\<lambda>x. x = CHR ''/'') (xs @ r) = a # as @ r"
    using a by (simp add: xs)
  moreover have "dropWhile (\<lambda>x. x \<noteq> CHR ''/'') (a # as @ r) = dropWhile (\<lambda>x. x \<noteq> CHR ''/'') (as @ r)"
    using a by simp
  moreover have "dropWhile (\<lambda>x. x \<noteq> CHR ''/'') (as @ r) = dropWhile (\<lambda>x. x \<noteq> CHR ''/'') r"
    using as by (rule dropWhile_append2)
  ultimately show ?thesis by simp
qed

lemma dirname_root:
  assumes "clean file"
  shows "posix_dirname (CHR ''/'' # file) = ''/''"
proof -
  from clean_simps [OF assms] have f: "rev file \<noteq> []" "CHR ''/'' \<notin> set (rev file)" by auto
  have e: "dropWhile (\<lambda>x. x \<noteq> CHR ''/'') (dropWhile (\<lambda>x. x = CHR ''/'') (rev file)) = []"
    using dropWhile_last_segment [OF f, of "[]"] by (simp only: append_Nil2 dropWhile.simps)
  show ?thesis unfolding posix_dirname_def list.case Let_def e by simp
qed

lemma dirname_nested:
  assumes "clean file" and "d \<noteq> []"
  shows "posix_dirname (CHR ''/'' # d @ CHR ''/'' # file) = CHR ''/'' # d"
proof -
  from clean_simps [OF assms(1)] have f: "rev file \<noteq> []" "CHR ''/'' \<notin> set (rev file)" by auto
  have "dropWhile (\<lambda>x. x \<noteq> CHR ''/'')
          (dropWhile (\<lambda>x. x = CHR ''/'') (rev file @ CHR ''/'' # rev d)) = CHR ''/'' # rev d"
    using dropWhile_last_segment [OF f, of "CHR ''/'' # rev d"] by simp
  then show ?thesis using assms(2) by (simp add: posix_dirname_def)
qed

lemma dirname_abs_path:
  assumes "clean file" and "\<forall>s\<in>set segs. clean s"
  shows "posix_dirname (abs_path (segs @ [file])) = abs_path segs"
proof (cases "segs = []")
  case True
  then show ?thesis using dirname_root [OF assms(1)] by (simp add: abs_path_def)
next
  case False
  have j: "join_sep (segs @ [file]) = join_sep segs @ CHR ''/'' # file"
    using False by (rule join_sep_snoc)
  have ne: "join_sep segs \<noteq> []"
    using False assms(2) by (intro join_sep_nonempty) (auto dest: clean_simps)
  show ?thesis using dirname_nested [OF assms(1) ne] by (simp add: abs_path_def j)
qed

lemma normalize_join_sep:
  assumes "segs \<noteq> []" and "\<forall>s\<in>set segs. clean s"
  shows "posix_normalize (join_sep segs) = join_sep segs"
proof -
  have ne: "\<forall>s\<in>set segs. s \<noteq> []" and ns: "\<forall>s\<in>set segs. CHR ''/'' \<notin> set s"
    using assms(2) by (auto dest: clean_simps)
  have j: "join_sep segs \<noteq> []" using assms(1) ne by (rule join_sep_nonempty)
  have hs: "hd segs \<in> set segs" and ls: "last segs \<in> set segs"
    using assms(1) by simp_all
  have "hd (hd segs) \<in> set (hd segs)" using hs ne by simp
  then have h: "hd (join_sep segs) \<noteq> CHR ''/''"
    using hd_join_sep [OF assms(1) ne] hs ns by auto
  have "last (last segs) \<in> set (last segs)" using ls ne by simp
  then have l: "last (join_sep segs) \<noteq> CHR ''/''"
    using last_join_sep [OF assms(1) ne] ls ns by auto
  have a: "\<not> isAbsolute (join_sep segs)"
    using h j by (cases "join_sep segs") (simp_all add: isAbsolute_def)
  have n: "normalizeString (join_sep segs) True = join_sep segs"
    using split_join [OF assms(1) ns] assms(2) by (simp add: normalizeString_def normalizeSegments_clean)
  show ?thesis using j l a n by (simp add: posix_normalize_def)
qed

lemma join_abs_path:
  assumes "clean name" and "\<forall>s\<in>set ds. clean s"
  shows "posix_join [join_sep ds, name] = join_sep (ds @ [name])"
proof (cases "ds = []")
  case True
  have "posix_normalize (join_sep [name]) = join_sep [name]"
    using assms(1) by (intro normalize_join_sep) simp_all
  then show ?thesis using True clean_simps [OF assms(1)] by (simp add: posix_join_def)
next
  case False
  have ne: "join_sep ds \<noteq> []"
    using False assms(2) by (intro join_sep_nonempty) (auto dest: clean_simps)
  have "posix_normalize (join_sep (ds @ [name])) = join_sep (ds @ [name])"
    using assms by (intro normalize_join_sep) auto
  then show ?thesis using ne clean_simps [OF assms(1)] join_sep_snoc [OF False, of name]
    by (simp add: posix_join_def)
qed

lemma tag_fields:
  "isNative (tag f t) = isNative t"
  "target_type (tag f t) = target_type t"
  "target_workspace (tag f t) = Some f"
  "targetDebugConfiguration E ws (tag f t) n = targetDebugConfiguration E ws t n"
  by (simp_all add: tag_def isNative_def targetDebugConfiguration_def)

lemma debugConfigurations_tagged:
  "list_all2 (\<lambda>t n. getTargetName E (tag f t) = Inr n) (filter isNative ts) names \<Longrightarrow>
   debugConfigurations E (map (tag f) ts) =
     Inr (map (\<lambda>p. targetLaunch E f (fst p) (snd p)) (zip (filter isNative ts) names))"
proof (induction ts arbitrary: names)
  case Nil
  then show ?case by simp
next
  case (Cons t ts)
  show ?case
  proof (cases "isNative t")
    case False
    then show ?thesis using Cons by (simp add: tag_fields)
  next
    case True
    with Cons.prems obtain n ns where names: "names = n # ns"
      and n: "getTargetName E (tag f t) = Inr n"
      and ns: "list_all2 (\<lambda>t n. getTargetName E (tag f t) = Inr n) (filter isNative ts) ns"
      by (auto simp: list_all2_Cons1)
    show ?thesis
      using True n Cons.IH [OF ns] by (simp add: names tag_fields targetLaunch_def)
  qed
qed

subsection \<open>The sample workspace, evaluated\<close>

lemma sample_buildDir: "buildDirOf sample_env ws_folder = ''/ws/builddir''"
  by (simp add: buildDirOf_def sample_env_def ws_folder_def ws_uri_def posix_resolve_def
      isAbsolute_def prepend_path_def normalizeString_def)

lemma other_buildDir: "buildDirOf sample_env other_folder = ''/other/builddir''"
  by (simp add: buildDirOf_def sample_env_def other_folder_def posix_resolve_def
      isAbsolute_def prepend_path_def normalizeString_def)

lemma sample_env_fields:
  "getMesonTests sample_env ''/ws/builddir'' = Inr [unit_test, smoke_test]"
  "getMesonTargets sample_env ''/ws/builddir'' = Inr [foo_target, util_target, tool_target]"
  "getMesonBenchmarks sample_env ''/ws/builddir'' = Inr []"
  "getMesonBuildOptions sample_env ''/ws/builddir'' =
     Inr [\<lparr>opt_name = ''buildtype'', opt_value = JStr ''debug''\<rparr>,
          \<lparr>opt_name = ''layout'', opt_value = JStr ''mirror''\<rparr>]"
  "getMesonProjectInfo sample_env ''/ws/builddir'' = Inr \<lparr>descriptive_name = ''demo''\<rparr>"
  "mesonPath sample_env = ''meson''"
  "debugOptions sample_env = Map.empty"
  "execFile sample_env = (\<lambda>command args. exited 0 ''ok'' [] 12)"
  "existsSync sample_env = (\<lambda>p. p = ''/ws/builddir'')"
  by (simp_all add: sample_env_def)

lemma folder_fields:
  "wf_uri ws_folder = ws_uri" "wf_name ws_folder = ''ws''"
  "uri_fsPath ws_uri = ''/ws''" "uri_path ws_uri = ''/ws''"
  "uri_fsPath (wf_uri other_folder) = ''/other''" "uri_path (wf_uri other_folder) = ''/other''"
  "wf_name other_folder = ''other''"
  by (simp_all add: ws_folder_def ws_uri_def other_folder_def)

lemma test_fields:
  "test_name unit_test = ''unit''"
  "test_cmd unit_test = [''env'', ''--'', ''/bin/prog'', ''--flag'']"
  "test_workdir unit_test = None" "test_env unit_test = [(''X'', ''1'')]"
  "test_depends unit_test = [''foo@exe'']"
  "test_name smoke_test = ''smoke''" "test_cmd smoke_test = [''/ws/builddir/smoke'']"
  "test_workdir smoke_test = Some ''/tmp''" "test_env smoke_test = []"
  "test_depends smoke_test = []"
  by (simp_all add: unit_test_def smoke_test_def)

lemma custom_buildDir: "buildDirOf custom_env ws_folder = ''/ws/builddir''"
  using sample_buildDir by (simp add: buildDirOf_def custom_env_def)

lemma broken_buildDir:
  "buildDirOf broken_env ws_folder = ''/ws/builddir''"
  "buildDirOf broken_env other_folder = ''/other/builddir''"
  using sample_buildDir other_buildDir by (simp_all add: buildDirOf_def broken_env_def)

lemma flat_buildDir: "buildDirOf flat_env ws_folder = ''/ws/builddir''"
  using sample_buildDir by (simp add: buildDirOf_def flat_env_def)

lemma sample_first_pass:
  "rebuildTestsForFolder sample_env [leaf ws_uri ''old'', leaf ws_uri ''unit''] ws_folder =
     Inr ([leaf ws_uri ''unit'', leaf ws_uri ''smoke''],
          [OpDelete ''old'', OpAdd (leaf ws_uri ''unit''), OpAdd (leaf ws_uri ''smoke'')])"
  by (simp add: rebuildTestsForFolder_def sample_buildDir sample_env_fields unit_test_def
      smoke_test_def leaf_def createTestItem_def collection_add_def collection_delete_def
      items_delete_def folder_fields)

lemma sample_second_pass:
  "rebuildTestsForFolder sample_env [leaf ws_uri ''unit'', leaf ws_uri ''smoke''] ws_folder =
     Inr ([leaf ws_uri ''unit'', leaf ws_uri ''smoke''],
          [OpAdd (leaf ws_uri ''unit''), OpAdd (leaf ws_uri ''smoke'')])"
  by (simp add: rebuildTestsForFolder_def sample_buildDir sample_env_fields test_fields
      leaf_def createTestItem_def collection_add_def collection_delete_def
      items_delete_def folder_fields)

lemma sample_rebuildTests:
  "fst (rebuildTests sample_env [ws_folder, other_folder] stale_tree) =
     [TestItem ''/ws'' ''demo'' None [leaf ws_uri ''unit'', leaf ws_uri ''smoke'']]"
  by (simp add: rebuildTests_def rebuildTests_folder_def sample_buildDir other_buildDir
      sample_env_fields stale_tree_def items_get_def items_delete_def set_children_def
      rebuildTestsForFolder_def unit_test_def smoke_test_def leaf_def createTestItem_def
      collection_add_def collection_delete_def prune_item_def folder_fields)




lemma sample_required:
  "relevantTests [leaf ws_uri ''unit''] [unit_test, smoke_test] = [unit_test]"
  "requiredTargets [unit_test] [foo_target, util_target, tool_target] = [foo_target]"
  "relevantTests [leaf ws_uri ''smoke''] [unit_test, smoke_test] = [smoke_test]"
  "requiredTargets [smoke_test] [foo_target, util_target, tool_target] = []"
  by (simp_all add: relevantTests_def requiredTargets_def leaf_def createTestItem_def
      unit_test_def smoke_test_def foo_target_def util_target_def tool_target_def)

lemma target_fields:
  "target_name foo_target = ''foo''" "target_type foo_target = ''executable''"
  "target_filename foo_target = [''/ws/builddir/sub/dir/foo'']"
  "target_defined_in foo_target = ''/ws/sub/dir/meson.build''"
  "target_name util_target = ''util''" "target_type util_target = ''static library''"
  "target_defined_in util_target = ''/ws/meson.build''"
  "target_name tool_target = ''tool''" "target_type tool_target = ''executable''"
  "target_filename tool_target = [''/ws/builddir/tool'', ''/ws/builddir/tool.dbg'']"
  "target_defined_in tool_target = ''/ws/meson.build''"
  by (simp_all add: foo_target_def util_target_def tool_target_def)

lemma sample_path_fields:
  "path_relative sample_env = posix_relative ''/''" "path_dirname sample_env = posix_dirname"
  by (simp_all add: sample_env_def)

lemma tag_target_fields:
  "target_workspace (tag f t) = Some f" "target_name (tag f t) = target_name t"
  "target_defined_in (tag f t) = target_defined_in t" "target_type (tag f t) = target_type t"
  "target_filename (tag f t) = target_filename t"
  by (simp_all add: tag_def)

lemma sample_layout:
  "filter (\<lambda>opt. opt_name opt = ''layout'')
     [\<lparr>opt_name = ''buildtype'', opt_value = JStr ''debug''\<rparr>,
      \<lparr>opt_name = ''layout'', opt_value = JStr ''mirror''\<rparr>] =
   \<lparr>opt_name = ''layout'', opt_value = JStr ''mirror''\<rparr> # []"
  by simp

lemma sample_names:
  "getTargetName sample_env (tag ws_folder foo_target) = Inr ''sub/dir/foo''"
  "getTargetName sample_env (tag ws_folder util_target) = Inr ''util''"
  "getTargetName sample_env (tag ws_folder tool_target) = Inr ''tool''"
  by (simp_all add: getTargetName_def tag_target_fields sample_buildDir sample_env_fields
      sample_path_fields folder_fields target_fields posix_dirname_def posix_relative_def
      posix_resolve_def isAbsolute_def prepend_path_def normalizeString_def posix_join_def
      posix_normalize_def Let_def)

lemma sample_run_tasks:
  "targetRunTasks sample_env ''/ws/builddir'' ws_folder foo_target ''sub/dir/foo'' =
     [runTask ws_folder ''sub/dir/foo'' ''/ws/builddir/sub/dir/foo'']"
  "targetRunTasks sample_env ''/ws/builddir'' ws_folder util_target ''util'' = []"
  "targetRunTasks sample_env ''/ws/builddir'' ws_folder tool_target ''tool'' =
     [runTaskFile ws_folder ''tool'' ''/ws/builddir/tool'',
      runTaskFile ws_folder ''tool'' ''/ws/builddir/tool.dbg'']"
  by (simp_all add: targetRunTasks_def namedTargetTasks_def tag_target_fields target_fields
      isRun_def buildTask_def runTask_def runTaskFile_def)

lemma custom_getTargetName: "getTargetName custom_env t = getTargetName sample_env t"
proof -
  have f: "getMesonBuildOptions custom_env = getMesonBuildOptions sample_env"
    "buildDirOf custom_env = buildDirOf sample_env"
    "path_relative custom_env = path_relative sample_env"
    "path_dirname custom_env = path_dirname sample_env"
    by (simp_all add: custom_env_def buildDirOf_def fun_eq_iff)
  show ?thesis unfolding getTargetName_def f by (rule refl)
qed

lemma custom_names:
  "getTargetName custom_env (tag ws_folder foo_target) = Inr ''sub/dir/foo''"
  by (simp only: custom_getTargetName sample_names)

lemma sample_debuggable:
  "filter debuggable [foo_target, util_target, tool_target] = [foo_target]"
  by (simp add: debuggable_def isNative_def foo_target_def util_target_def tool_target_def)

section \<open>Properties\<close>

text \<open>
  \<^bold>\<open>C1.\<close> Reconciliation is idempotent. When the fetch of the folder's tests succeeds,
  a second run of \<open>rebuildTestsForFolder\<close> right after a first one, on the same test
  list, leaves the collection as the first run left it: no id is added or removed on
  balance, the second run issues no \<open>delete\<close>, and every \<open>add\<close> it issues replaces an
  item by an equal one.
\<close>

theorem rebuildTestsForFolder_idempotent:
  assumes "getMesonTests E (buildDirOf E folder) = Inr tests"
  shows "\<exists>c1 ops1 c2 ops2.
           rebuildTestsForFolder E c folder = Inr (c1, ops1) \<and>
           rebuildTestsForFolder E c1 folder = Inr (c2, ops2) \<and>
           c2 = c1 \<and> net_added c1 c2 = [] \<and> net_removed c1 c2 = [] \<and>
           filter is_delete ops2 = [] \<and>
           (\<forall>op\<in>set ops2. \<forall>x. op = OpAdd x \<longrightarrow> items_get c1 (item_id x) = Some x)"
proof -
  define c1 where "c1 = fst (reconcile tests (wf_uri folder) c)"
  define ops2 where "ops2 = map (\<lambda>t. OpAdd (leaf (wf_uri folder) (test_name t))) tests"
  have r1: "rebuildTestsForFolder E c folder = Inr (c1, snd (reconcile tests (wf_uri folder) c))"
    using assms by (simp add: rebuildTestsForFolder_reconcile c1_def)
  have r2: "rebuildTestsForFolder E c1 folder = Inr (c1, ops2)"
    using assms reconcile_fixpoint [OF c1_def] by (simp add: rebuildTestsForFolder_reconcile ops2_def)
  have na: "net_added c1 c1 = []" and nr: "net_removed c1 c1 = []"
    by (auto simp: net_added_def net_removed_def filter_empty_conv list_ex_iff)
  have nd: "filter is_delete ops2 = []"
    by (simp add: ops2_def filter_empty_conv is_delete_def)
  have repl: "\<forall>op\<in>set ops2. \<forall>x. op = OpAdd x \<longrightarrow> items_get c1 (item_id x) = Some x"
    by (auto simp: ops2_def items_get_def c1_def item_id_leaf reconcile_find)
  show ?thesis using r1 r2 na nr nd repl by blast
qed

theorem rebuildTestsForFolder_idempotent_witness:
  "getMesonTests sample_env (buildDirOf sample_env ws_folder) = Inr [unit_test, smoke_test] \<and>
   rebuildTestsForFolder sample_env [leaf ws_uri ''old'', leaf ws_uri ''unit''] ws_folder =
     Inr ([leaf ws_uri ''unit'', leaf ws_uri ''smoke''],
          [OpDelete ''old'', OpAdd (leaf ws_uri ''unit''), OpAdd (leaf ws_uri ''smoke'')]) \<and>
   rebuildTestsForFolder sample_env [leaf ws_uri ''unit'', leaf ws_uri ''smoke''] ws_folder =
     Inr ([leaf ws_uri ''unit'', leaf ws_uri ''smoke''],
          [OpAdd (leaf ws_uri ''unit''), OpAdd (leaf ws_uri ''smoke'')]) \<and>
   (\<exists>c1 ops1 c2 ops2.
      rebuildTestsForFolder sample_env [leaf ws_uri ''old'', leaf ws_uri ''unit''] ws_folder =
        Inr (c1, ops1) \<and>
      rebuildTestsForFolder sample_env c1 ws_folder = Inr (c2, ops2) \<and>
      c2 = c1 \<and> net_added c1 c2 = [] \<and> net_removed c1 c2 = [] \<and>
      filter is_delete ops2 = [])"
proof -
  have h: "getMesonTests sample_env (buildDirOf sample_env ws_folder) = Inr [unit_test, smoke_test]"
    by (simp add: sample_buildDir sample_env_fields)
  from rebuildTestsForFolder_idempotent [OF h, of "[leaf ws_uri ''old'', leaf ws_uri ''unit'']"]
  have "\<exists>c1 ops1 c2 ops2.
      rebuildTestsForFolder sample_env [leaf ws_uri ''old'', leaf ws_uri ''unit''] ws_folder =
        Inr (c1, ops1) \<and>
      rebuildTestsForFolder sample_env c1 ws_folder = Inr (c2, ops2) \<and>
      c2 = c1 \<and> net_added c1 c2 = [] \<and> net_removed c1 c2 = [] \<and>
      filter is_delete ops2 = []"
    by blast
  then show ?thesis using h sample_first_pass sample_second_pass by (intro conjI)
qed

text \<open>
  \<^bold>\<open>C2.\<close> For a selected test with command vector \<open>env -- /bin/prog --flag\<close>,
  environment \<open>{X: "1"}\<close> and no working directory, once the required targets are
  built, \<open>prepareTestInFolder\<close> returns a launch configuration in which every key of
  the user's debug options has the user's value, and, where the user names no such key,
  \<open>program\<close> is the first token \<open>env\<close>, \<open>args\<close> are the remaining tokens
  \<open>--\<close>, \<open>/bin/prog\<close>, \<open>--flag\<close>, \<open>cwd\<close> is the build directory and \<open>env\<close>
  is \<open>{X: "1"}\<close>. (The program is not \<open>/bin/prog\<close>: see the counterexample after
  the theorem.)
\<close>

theorem prepareTestInFolder_debug_configuration:
  assumes "getMesonTests E (buildDirOf E wsFolder) = Inr tests"
    and "getMesonTargets E (buildDirOf E wsFolder) = Inr targets"
    and "requiredTargets (relevantTests queue tests) targets \<noteq> []"
    and "po_error (execFile E (mesonPath E)
           (compileArgs E wsFolder (requiredTargets (relevantTests queue tests) targets))) = None"
    and "t \<in> set (relevantTests queue tests)"
    and "test_cmd t = [''env'', ''--'', ''/bin/prog'', ''--flag'']"
    and "test_env t = [(''X'', ''1'')]"
    and "test_workdir t = None"
  shows "(\<exists>effs. prepareTestInFolder E queue wsFolder =
            Inr (map (\<lambda>t. (wsFolder, testLaunch E wsFolder t)) (relevantTests queue tests), effs)) \<and>
         (wsFolder, testLaunch E wsFolder t) \<in>
            set (map (\<lambda>t. (wsFolder, testLaunch E wsFolder t)) (relevantTests queue tests)) \<and>
         (\<forall>k v. debugOptions E k = Some v \<longrightarrow> testLaunch E wsFolder t k = Some v) \<and>
         (debugOptions E ''program'' = None \<longrightarrow>
            testLaunch E wsFolder t ''program'' = Some (JStr ''env'')) \<and>
         (debugOptions E ''args'' = None \<longrightarrow>
            testLaunch E wsFolder t ''args'' =
              Some (JArr [JStr ''--'', JStr ''/bin/prog'', JStr ''--flag''])) \<and>
         (debugOptions E ''cwd'' = None \<longrightarrow>
            testLaunch E wsFolder t ''cwd'' = Some (JStr (buildDirOf E wsFolder))) \<and>
         (debugOptions E ''env'' = None \<longrightarrow>
            testLaunch E wsFolder t ''env'' = Some (JObj [(''X'', JStr ''1'')]))"
proof -
  have run: "\<exists>effs. prepareTestInFolder E queue wsFolder =
            Inr (map (\<lambda>t. (wsFolder, testLaunch E wsFolder t)) (relevantTests queue tests), effs)"
    using assms(1-4)
    by (simp add: prepareTestInFolder_def Let_def exec_def compileArgs_def testLaunch_def)
  have over: "\<forall>k v. debugOptions E k = Some v \<longrightarrow> testLaunch E wsFolder t k = Some v"
    by (simp add: testLaunch_def spread_def)
  have synth: "debugOptions E k = None \<Longrightarrow>
       testLaunch E wsFolder t k = testDebugConfiguration (buildDirOf E wsFolder) t k" for k
    by (simp add: testLaunch_def spread_def map_add_def)
  have mem: "(wsFolder, testLaunch E wsFolder t) \<in>
            set (map (\<lambda>t. (wsFolder, testLaunch E wsFolder t)) (relevantTests queue tests))"
    using assms(5) by simp
  show ?thesis
    using run over mem assms(6-8)
    by (simp add: synth testDebugConfiguration_def env_object_def)
qed

theorem prepareTestInFolder_program_counterexample:
  "launchField ''program'' (prepareTestInFolder sample_env [leaf ws_uri ''unit''] ws_folder) =
     [Some (JStr ''env'')] \<and>
   launchField ''program'' (prepareTestInFolder sample_env [leaf ws_uri ''unit''] ws_folder) \<noteq>
     [Some (JStr ''/bin/prog'')] \<and>
   launchField ''args'' (prepareTestInFolder sample_env [leaf ws_uri ''unit''] ws_folder) =
     [Some (JArr [JStr ''--'', JStr ''/bin/prog'', JStr ''--flag''])] \<and>
   test_cmd unit_test = [''env'', ''--'', ''/bin/prog'', ''--flag''] \<and>
   test_env unit_test = [(''X'', ''1'')] \<and> test_workdir unit_test = None"
  by (simp add: launchField_def prepareTestInFolder_def sample_buildDir sample_env_fields
      sample_required exec_def exited_def maxBuffer_def spread_def testDebugConfiguration_def
      Let_def
      test_fields)

theorem prepareTestInFolder_debug_configuration_witness:
  "getMesonTests custom_env (buildDirOf custom_env ws_folder) = Inr [unit_test, smoke_test] \<and>
   getMesonTargets custom_env (buildDirOf custom_env ws_folder) =
     Inr [foo_target, util_target, tool_target] \<and>
   requiredTargets (relevantTests [leaf ws_uri ''unit''] [unit_test, smoke_test])
     [foo_target, util_target, tool_target] \<noteq> [] \<and>
   po_error (execFile custom_env (mesonPath custom_env)
     (compileArgs custom_env ws_folder
        (requiredTargets (relevantTests [leaf ws_uri ''unit''] [unit_test, smoke_test])
           [foo_target, util_target, tool_target]))) = None \<and>
   unit_test \<in> set (relevantTests [leaf ws_uri ''unit''] [unit_test, smoke_test]) \<and>
   test_cmd unit_test = [''env'', ''--'', ''/bin/prog'', ''--flag''] \<and>
   test_env unit_test = [(''X'', ''1'')] \<and> test_workdir unit_test = None \<and>
   (\<exists>effs. prepareTestInFolder custom_env [leaf ws_uri ''unit''] ws_folder =
      Inr ([(ws_folder, testLaunch custom_env ws_folder unit_test)], effs)) \<and>
   testLaunch custom_env ws_folder unit_test ''program'' = Some (JStr ''/usr/bin/gdbserver'') \<and>
   testLaunch custom_env ws_folder unit_test ''cwd'' = Some (JStr ''/tmp'') \<and>
   testLaunch custom_env ws_folder unit_test ''args'' =
     Some (JArr [JStr ''--'', JStr ''/bin/prog'', JStr ''--flag'']) \<and>
   testLaunch custom_env ws_folder unit_test ''env'' = Some (JObj [(''X'', JStr ''1'')])"
proof -
  have f: "getMesonTests custom_env = getMesonTests sample_env"
    "getMesonTargets custom_env = getMesonTargets sample_env"
    "execFile custom_env = execFile sample_env" "mesonPath custom_env = mesonPath sample_env"
    "debugOptions custom_env = [''cwd'' \<mapsto> JStr ''/tmp'', ''program'' \<mapsto> JStr ''/usr/bin/gdbserver'']"
    by (simp_all add: custom_env_def)
  have h1: "getMesonTests custom_env (buildDirOf custom_env ws_folder) = Inr [unit_test, smoke_test]"
    and h2: "getMesonTargets custom_env (buildDirOf custom_env ws_folder) =
      Inr [foo_target, util_target, tool_target]"
    by (simp_all add: custom_buildDir f sample_env_fields)
  have h3: "requiredTargets (relevantTests [leaf ws_uri ''unit''] [unit_test, smoke_test])
      [foo_target, util_target, tool_target] \<noteq> []"
    by (simp add: sample_required)
  have h4: "po_error (execFile custom_env (mesonPath custom_env)
     (compileArgs custom_env ws_folder
        (requiredTargets (relevantTests [leaf ws_uri ''unit''] [unit_test, smoke_test])
           [foo_target, util_target, tool_target]))) = None"
    by (simp add: f sample_env_fields exited_def maxBuffer_def)
  have h5: "unit_test \<in> set (relevantTests [leaf ws_uri ''unit''] [unit_test, smoke_test])"
    by (simp add: sample_required)
  have h6: "test_cmd unit_test = [''env'', ''--'', ''/bin/prog'', ''--flag'']"
    and h7: "test_env unit_test = [(''X'', ''1'')]" and h8: "test_workdir unit_test = None"
    by (simp_all add: test_fields)
  from prepareTestInFolder_debug_configuration [OF h1 h2 h3 h4 h5 h6 h7 h8]
  show ?thesis using h1 h2 h3 h4 h5 h6 h7 h8 by (simp add: f sample_required)
qed




text \<open>
  \<^bold>\<open>C4.\<close> Target names. With the build option \<open>layout\<close> equal to \<open>mirror\<close>,
  \<open>getTargetName\<close> returns the POSIX join of the path of the defining directory
  relative to the workspace root and the target's name; on a POSIX host, for a target
  defined in \<open>root/sub/file\<close>, that is the segments of \<open>sub\<close> and the name, separated
  by \<open>/\<close>. With any other value it returns \<open>meson-out/\<close> followed by the name.
\<close>

theorem getTargetName_layout:
  assumes "target_workspace t = Some ws"
    and "getMesonBuildOptions E (buildDirOf E ws) = Inr buildOptions"
    and "filter (\<lambda>opt. opt_name opt = ''layout'') buildOptions = layoutOption # others"
  shows "(opt_value layoutOption = JStr ''mirror'' \<longrightarrow>
            getTargetName E t =
              Inr (posix_join [path_relative E (uri_fsPath (wf_uri ws))
                                 (path_dirname E (target_defined_in t)), target_name t])) \<and>
         (opt_value layoutOption = JStr ''mirror'' \<and>
          path_relative E = posix_relative cwd \<and> path_dirname E = posix_dirname \<and>
          uri_fsPath (wf_uri ws) = abs_path root \<and>
          target_defined_in t = abs_path (root @ sub @ [file]) \<and>
          list_all clean (root @ sub @ [file, target_name t]) \<longrightarrow>
            getTargetName E t = Inr (join_sep (sub @ [target_name t]))) \<and>
         (opt_value layoutOption \<noteq> JStr ''mirror'' \<longrightarrow>
            getTargetName E t = Inr (''meson-out/'' @ target_name t))"
proof -
  have g: "getTargetName E t =
      (if opt_value layoutOption = JStr ''mirror'' then
         Inr (posix_join [path_relative E (uri_fsPath (wf_uri ws))
                            (path_dirname E (target_defined_in t)), target_name t])
       else Inr (''meson-out/'' @ target_name t))"
    using assms by (simp add: getTargetName_def)
  have posix: "getTargetName E t = Inr (join_sep (sub @ [target_name t]))"
    if m: "opt_value layoutOption = JStr ''mirror''"
      and p: "path_relative E = posix_relative cwd" "path_dirname E = posix_dirname"
      and r: "uri_fsPath (wf_uri ws) = abs_path root"
      and d: "target_defined_in t = abs_path (root @ sub @ [file])"
      and c: "list_all clean (root @ sub @ [file, target_name t])"
  proof -
    from c have cr: "\<forall>s\<in>set root. clean s" and cs: "\<forall>s\<in>set sub. clean s"
      and cf: "clean file" and cn: "clean (target_name t)"
      by (auto simp: list_all_iff)
    have crs: "\<forall>s\<in>set (root @ sub). clean s" using cr cs by auto
    have "posix_dirname (abs_path ((root @ sub) @ [file])) = abs_path (root @ sub)"
      using cf crs by (rule dirname_abs_path)
    then have "path_dirname E (target_defined_in t) = abs_path (root @ sub)"
      by (simp add: p d)
    then have "path_relative E (uri_fsPath (wf_uri ws)) (path_dirname E (target_defined_in t)) =
        join_sep sub"
      using relative_abs_path [OF cr cs, of cwd] by (simp add: p r)
    then show ?thesis
      using m join_abs_path [OF cn cs] by (simp add: g)
  qed
  show ?thesis
  proof (intro conjI impI)
    assume "opt_value layoutOption = JStr ''mirror''"
    then show "getTargetName E t =
        Inr (posix_join [path_relative E (uri_fsPath (wf_uri ws))
                           (path_dirname E (target_defined_in t)), target_name t])"
      by (simp add: g)
  next
    assume "opt_value layoutOption = JStr ''mirror'' \<and>
          path_relative E = posix_relative cwd \<and> path_dirname E = posix_dirname \<and>
          uri_fsPath (wf_uri ws) = abs_path root \<and>
          target_defined_in t = abs_path (root @ sub @ [file]) \<and>
          list_all clean (root @ sub @ [file, target_name t])"
    then show "getTargetName E t = Inr (join_sep (sub @ [target_name t]))"
      by (intro posix) blast+
  next
    assume "opt_value layoutOption \<noteq> JStr ''mirror''"
    then show "getTargetName E t = Inr (''meson-out/'' @ target_name t)"
      by (simp add: g)
  qed
qed

theorem getTargetName_layout_witness:
  "target_workspace (tag ws_folder foo_target) = Some ws_folder \<and>
   getMesonBuildOptions sample_env (buildDirOf sample_env ws_folder) =
     Inr [\<lparr>opt_name = ''buildtype'', opt_value = JStr ''debug''\<rparr>,
          \<lparr>opt_name = ''layout'', opt_value = JStr ''mirror''\<rparr>] \<and>
   uri_fsPath (wf_uri ws_folder) = ''/ws'' \<and>
   target_defined_in (tag ws_folder foo_target) = ''/ws/sub/dir/meson.build'' \<and>
   getTargetName sample_env (tag ws_folder foo_target) = Inr ''sub/dir/foo'' \<and>
   getTargetName flat_env (tag ws_folder foo_target) = Inr ''meson-out/foo''"
proof -
  have w: "target_workspace (tag ws_folder foo_target) = Some ws_folder"
    by (simp add: tag_target_fields)
  have b: "getMesonBuildOptions sample_env (buildDirOf sample_env ws_folder) =
     Inr [\<lparr>opt_name = ''buildtype'', opt_value = JStr ''debug''\<rparr>,
          \<lparr>opt_name = ''layout'', opt_value = JStr ''mirror''\<rparr>]"
    by (simp add: sample_buildDir sample_env_fields)
  have c: "list_all clean ([''ws''] @ [''sub'', ''dir''] @
      [''meson.build'', target_name (tag ws_folder foo_target)])"
    by (simp add: clean_def tag_target_fields target_fields)
  have p: "opt_value \<lparr>opt_name = ''layout'', opt_value = JStr ''mirror''\<rparr> = JStr ''mirror'' \<and>
      path_relative sample_env = posix_relative ''/'' \<and> path_dirname sample_env = posix_dirname \<and>
      uri_fsPath (wf_uri ws_folder) = abs_path [''ws''] \<and>
      target_defined_in (tag ws_folder foo_target) =
        abs_path ([''ws''] @ [''sub'', ''dir''] @ [''meson.build'']) \<and>
      list_all clean ([''ws''] @ [''sub'', ''dir''] @
        [''meson.build'', target_name (tag ws_folder foo_target)])"
    using c
    by (simp add: sample_path_fields folder_fields tag_target_fields target_fields abs_path_def)
  with getTargetName_layout [OF w b sample_layout,
        of "''/''" "[''ws'']" "[''sub'', ''dir'']" "''meson.build''"]
  have "getTargetName sample_env (tag ws_folder foo_target) =
      Inr (join_sep ([''sub'', ''dir''] @ [target_name (tag ws_folder foo_target)]))"
    by blast
  then have m: "getTargetName sample_env (tag ws_folder foo_target) = Inr ''sub/dir/foo''"
    by (simp add: tag_target_fields target_fields)
  have fb: "getMesonBuildOptions flat_env (buildDirOf flat_env ws_folder) =
     Inr [\<lparr>opt_name = ''layout'', opt_value = JStr ''flat''\<rparr>]"
    by (simp add: flat_env_def)
  have fl: "filter (\<lambda>opt. opt_name opt = ''layout'')
      [\<lparr>opt_name = ''layout'', opt_value = JStr ''flat''\<rparr>] =
      \<lparr>opt_name = ''layout'', opt_value = JStr ''flat''\<rparr> # []"
    by simp
  have f: "getTargetName flat_env (tag ws_folder foo_target) = Inr ''meson-out/foo''"
    using getTargetName_layout [OF w fb fl]
    by (simp add: tag_target_fields target_fields)
  show ?thesis
    using w b m f by (simp add: folder_fields tag_target_fields target_fields)
qed

text \<open>
  \<^bold>\<open>C5.\<close> When the targets, tests and benchmarks are fetched and every target's name
  resolves, \<open>getMesonTasksForDir\<close> reports no error, its build tasks that carry a
  target are one per target, in order, identified by the resolved names, and its tasks
  without a target are the five fixed ones that open the list: \<open>compile\<close>, \<open>test\<close>,
  \<open>test --benchmark --verbose\<close>, \<open>setup --reconfigure\<close> of the build directory run
  from the workspace root, and \<open>compile --clean\<close>, the others run in the build
  directory.
\<close>

theorem getMesonTasksForDir_tasks:
  assumes "getMesonTargets E (buildDirOf E workspace) = Inr targets"
    and "getMesonTests E buildDir = Inr tests"
    and "getMesonBenchmarks E buildDir = Inr benchmarks"
    and "list_all2 (\<lambda>t n. getTargetName E (tag workspace t) = Inr n) targets names"
  shows "snd (getMesonTasksForDir E buildDir workspace) = [] \<and>
         filter isTargetBuild (fst (getMesonTasksForDir E buildDir workspace)) =
           map (buildTask E buildDir workspace) names \<and>
         map (\<lambda>k. def_target (task_def k))
           (filter isTargetBuild (fst (getMesonTasksForDir E buildDir workspace))) =
           map Some names \<and>
         length (filter isTargetBuild (fst (getMesonTasksForDir E buildDir workspace))) =
           length targets \<and>
         filter hasNoTarget (fst (getMesonTasksForDir E buildDir workspace)) =
           take 5 (fst (getMesonTasksForDir E buildDir workspace)) \<and>
         map invocation (filter hasNoTarget (fst (getMesonTasksForDir E buildDir workspace))) =
           [(Some Build, [''compile''], Some buildDir),
            (Some Test, [''test''], Some buildDir),
            (Some Benchmark, [''test'', ''--benchmark'', ''--verbose''], Some buildDir),
            (Some Reconfigure, [''setup'', ''--reconfigure'', buildDir],
               Some (uri_fsPath (wf_uri workspace))),
            (Some Clean, [''compile'', ''--clean''], Some buildDir)]"
proof -
  let ?per = "map (\<lambda>p. namedTargetTasks E buildDir workspace (fst p) (snd p))
                (zip (map (tag workspace) targets) names)"
  let ?tasks = "defaultTasks E buildDir workspace @ concat ?per
                @ map (testTask E buildDir workspace) tests
                @ map (benchmarkTask E buildDir workspace) benchmarks"
  have l2: "list_all2 (\<lambda>t n. getTargetName E t = Inr n) (map (tag workspace) targets) names"
    using assms(4) by (simp add: list_all2_map1)
  have len: "length (map (tag workspace) targets) = length names"
    using l2 by (rule list_all2_lengthD)
  have syn: "synthesizeTasks E buildDir workspace = Inr ?tasks"
    using assms(2,3) getMesonTargetsFromFolder_Inr [OF assms(1)] promise_all_targetTasks [OF l2]
    by (simp add: synthesizeTasks_def)
  have res: "getMesonTasksForDir E buildDir workspace = (?tasks, [])"
    by (simp add: getMesonTasksForDir_def syn)
  have b: "filter isTargetBuild ?tasks = map (buildTask E buildDir workspace) names"
    using filter_build_concat [OF len] by (simp add: filter_default filter_tests)
  have n: "filter hasNoTarget ?tasks = defaultTasks E buildDir workspace"
    by (simp add: filter_default filter_tests filter_notarget_concat)
  have t5: "take 5 ?tasks = defaultTasks E buildDir workspace"
    by (simp add: defaultTasks_def)
  have bt: "map (\<lambda>k. def_target (task_def k)) (map (buildTask E buildDir workspace) names) = map Some names"
    by (simp add: buildTask_def comp_def)
  have bl: "length (map (buildTask E buildDir workspace) names) = length targets"
    using len by simp
  show ?thesis
    unfolding res fst_conv snd_conv b n t5 bt bl invocation_default by simp
qed

theorem getMesonTasksForDir_tasks_witness:
  "getMesonTargets sample_env (buildDirOf sample_env ws_folder) =
     Inr [foo_target, util_target, tool_target] \<and>
   getMesonTests sample_env ''/ws/builddir'' = Inr [unit_test, smoke_test] \<and>
   getMesonBenchmarks sample_env ''/ws/builddir'' = Inr [] \<and>
   list_all2 (\<lambda>t n. getTargetName sample_env (tag ws_folder t) = Inr n)
     [foo_target, util_target, tool_target] [''sub/dir/foo'', ''util'', ''tool''] \<and>
   snd (getMesonTasksForDir sample_env ''/ws/builddir'' ws_folder) = [] \<and>
   map (\<lambda>k. def_target (task_def k))
     (filter isTargetBuild (fst (getMesonTasksForDir sample_env ''/ws/builddir'' ws_folder))) =
     [Some ''sub/dir/foo'', Some ''util'', Some ''tool''] \<and>
   map invocation
     (filter hasNoTarget (fst (getMesonTasksForDir sample_env ''/ws/builddir'' ws_folder))) =
     [(Some Build, [''compile''], Some ''/ws/builddir''),
      (Some Test, [''test''], Some ''/ws/builddir''),
      (Some Benchmark, [''test'', ''--benchmark'', ''--verbose''], Some ''/ws/builddir''),
      (Some Reconfigure, [''setup'', ''--reconfigure'', ''/ws/builddir''], Some ''/ws''),
      (Some Clean, [''compile'', ''--clean''], Some ''/ws/builddir'')]"
proof -
  have h1: "getMesonTargets sample_env (buildDirOf sample_env ws_folder) =
      Inr [foo_target, util_target, tool_target]"
    by (simp add: sample_buildDir sample_env_fields)
  have h2: "getMesonTests sample_env ''/ws/builddir'' = Inr [unit_test, smoke_test]"
    and h3: "getMesonBenchmarks sample_env ''/ws/builddir'' = Inr []"
    by (simp_all add: sample_env_fields)
  have h4: "list_all2 (\<lambda>t n. getTargetName sample_env (tag ws_folder t) = Inr n)
      [foo_target, util_target, tool_target] [''sub/dir/foo'', ''util'', ''tool'']"
    by (simp add: sample_names)
  note r = getMesonTasksForDir_tasks [OF h1 h2 h3 h4]
  have a: "snd (getMesonTasksForDir sample_env ''/ws/builddir'' ws_folder) = []"
    using r by simp
  have b: "map (\<lambda>k. def_target (task_def k))
     (filter isTargetBuild (fst (getMesonTasksForDir sample_env ''/ws/builddir'' ws_folder))) =
     [Some ''sub/dir/foo'', Some ''util'', Some ''tool'']"
    using r by (simp add: buildTask_def)
  have c: "map invocation
     (filter hasNoTarget (fst (getMesonTasksForDir sample_env ''/ws/builddir'' ws_folder))) =
     [(Some Build, [''compile''], Some ''/ws/builddir''),
      (Some Test, [''test''], Some ''/ws/builddir''),
      (Some Benchmark, [''test'', ''--benchmark'', ''--verbose''], Some ''/ws/builddir''),
      (Some Reconfigure, [''setup'', ''--reconfigure'', ''/ws/builddir''], Some ''/ws''),
      (Some Clean, [''compile'', ''--clean''], Some ''/ws/builddir'')]"
    using r [THEN conjunct2, THEN conjunct2, THEN conjunct2, THEN conjunct2, THEN conjunct2]
    by (simp add: folder_fields)
  show ?thesis using h1 h2 h3 h4 a b c by (intro conjI)
qed

text \<open>
  \<^bold>\<open>C6.\<close> Run tasks. When the targets, tests and benchmarks are fetched and every
  target's name resolves, the run tasks in the list that \<open>getMesonTasksForDir\<close>
  returns are those of the targets, target by target in order. For an executable, each
  of its run tasks carries the resolved name; with more than one output file there is
  one run task per file, its \<open>filename\<close> field holding that file, and the identities
  are pairwise distinct when the files are; with exactly one output file there is one
  run task and it has no \<open>filename\<close>.
\<close>

theorem getMesonTasksForDir_run_tasks:
  assumes "getMesonTargets E (buildDirOf E workspace) = Inr targets"
    and "getMesonTests E buildDir = Inr tests"
    and "getMesonBenchmarks E buildDir = Inr benchmarks"
    and "list_all2 (\<lambda>t n. getTargetName E (tag workspace t) = Inr n) targets names"
  shows "filter isRun (fst (getMesonTasksForDir E buildDir workspace)) =
           concat (map (\<lambda>p. targetRunTasks E buildDir workspace (fst p) (snd p))
                     (zip targets names)) \<and>
         (\<forall>p\<in>set (zip targets names). target_type (fst p) = ''executable'' \<longrightarrow>
            (\<forall>k\<in>set (targetRunTasks E buildDir workspace (fst p) (snd p)).
               def_target (task_def k) = Some (snd p) \<and> def_mode (task_def k) = Some Run) \<and>
            (1 < length (target_filename (fst p)) \<longrightarrow>
               length (targetRunTasks E buildDir workspace (fst p) (snd p)) =
                 length (target_filename (fst p)) \<and>
               map (\<lambda>k. def_filename (task_def k))
                 (targetRunTasks E buildDir workspace (fst p) (snd p)) =
                 map Some (target_filename (fst p)) \<and>
               (distinct (target_filename (fst p)) \<longrightarrow>
                  distinct (map task_def
                    (targetRunTasks E buildDir workspace (fst p) (snd p))))) \<and>
            (length (target_filename (fst p)) = 1 \<longrightarrow>
               length (targetRunTasks E buildDir workspace (fst p) (snd p)) = 1 \<and>
               map (\<lambda>k. def_filename (task_def k))
                 (targetRunTasks E buildDir workspace (fst p) (snd p)) = [None]))"
proof -
  let ?per = "map (\<lambda>p. namedTargetTasks E buildDir workspace (fst p) (snd p))
                (zip (map (tag workspace) targets) names)"
  let ?tasks = "defaultTasks E buildDir workspace @ concat ?per
                @ map (testTask E buildDir workspace) tests
                @ map (benchmarkTask E buildDir workspace) benchmarks"
  have l2: "list_all2 (\<lambda>t n. getTargetName E t = Inr n) (map (tag workspace) targets) names"
    using assms(4) by (simp add: list_all2_map1)
  have syn: "synthesizeTasks E buildDir workspace = Inr ?tasks"
    using assms(2,3) getMesonTargetsFromFolder_Inr [OF assms(1)] promise_all_targetTasks [OF l2]
    by (simp add: synthesizeTasks_def)
  have res: "fst (getMesonTasksForDir E buildDir workspace) = ?tasks"
    by (simp add: getMesonTasksForDir_def syn)
  have link: "filter isRun (fst (getMesonTasksForDir E buildDir workspace)) =
      concat (map (\<lambda>p. targetRunTasks E buildDir workspace (fst p) (snd p)) (zip targets names))"
    unfolding res by (simp add: filter_run_fixed filter_run_concat)
  have inj: "inj (\<lambda>f. task_def (runTaskFile workspace n f))" for n
    by (rule injI) (simp add: runTaskFile_def)
  have d: "distinct fs \<Longrightarrow> distinct (map task_def (map (runTaskFile workspace n) fs))" for fs n
    using inj [of n] by (simp add: distinct_map comp_def inj_on_def)
  have per: "(\<forall>k\<in>set (targetRunTasks E buildDir workspace t n).
               def_target (task_def k) = Some n \<and> def_mode (task_def k) = Some Run) \<and>
            (1 < length (target_filename t) \<longrightarrow>
               length (targetRunTasks E buildDir workspace t n) = length (target_filename t) \<and>
               map (\<lambda>k. def_filename (task_def k)) (targetRunTasks E buildDir workspace t n) =
                 map Some (target_filename t) \<and>
               (distinct (target_filename t) \<longrightarrow>
                  distinct (map task_def (targetRunTasks E buildDir workspace t n)))) \<and>
            (length (target_filename t) = 1 \<longrightarrow>
               length (targetRunTasks E buildDir workspace t n) = 1 \<and>
               map (\<lambda>k. def_filename (task_def k)) (targetRunTasks E buildDir workspace t n) =
                 [None])"
    if "target_type t = ''executable''" for t n
    using d [of "target_filename t" n]
    by (auto simp: targetRunTasks_executable [OF that] comp_def runTaskFile_def runTask_def)
  show ?thesis using link per by blast
qed

theorem getMesonTasksForDir_run_tasks_witness:
  "getMesonTargets sample_env (buildDirOf sample_env ws_folder) =
     Inr [foo_target, util_target, tool_target] \<and>
   getMesonTests sample_env ''/ws/builddir'' = Inr [unit_test, smoke_test] \<and>
   getMesonBenchmarks sample_env ''/ws/builddir'' = Inr [] \<and>
   list_all2 (\<lambda>t n. getTargetName sample_env (tag ws_folder t) = Inr n)
     [foo_target, util_target, tool_target] [''sub/dir/foo'', ''util'', ''tool''] \<and>
   filter isRun (fst (getMesonTasksForDir sample_env ''/ws/builddir'' ws_folder)) =
     [runTask ws_folder ''sub/dir/foo'' ''/ws/builddir/sub/dir/foo'',
      runTaskFile ws_folder ''tool'' ''/ws/builddir/tool'',
      runTaskFile ws_folder ''tool'' ''/ws/builddir/tool.dbg''] \<and>
   map (\<lambda>k. (def_target (task_def k), def_filename (task_def k)))
     (filter isRun (fst (getMesonTasksForDir sample_env ''/ws/builddir'' ws_folder))) =
     [(Some ''sub/dir/foo'', None),
      (Some ''tool'', Some ''/ws/builddir/tool''),
      (Some ''tool'', Some ''/ws/builddir/tool.dbg'')] \<and>
   distinct (map task_def
     (filter isRun (fst (getMesonTasksForDir sample_env ''/ws/builddir'' ws_folder))))"
proof -
  have h1: "getMesonTargets sample_env (buildDirOf sample_env ws_folder) =
      Inr [foo_target, util_target, tool_target]"
    by (simp add: sample_buildDir sample_env_fields)
  have h2: "getMesonTests sample_env ''/ws/builddir'' = Inr [unit_test, smoke_test]"
    and h3: "getMesonBenchmarks sample_env ''/ws/builddir'' = Inr []"
    by (simp_all add: sample_env_fields)
  have h4: "list_all2 (\<lambda>t n. getTargetName sample_env (tag ws_folder t) = Inr n)
      [foo_target, util_target, tool_target] [''sub/dir/foo'', ''util'', ''tool'']"
    by (simp add: sample_names)
  note r = getMesonTasksForDir_run_tasks [OF h1 h2 h3 h4, THEN conjunct1]
  have a: "filter isRun (fst (getMesonTasksForDir sample_env ''/ws/builddir'' ws_folder)) =
     [runTask ws_folder ''sub/dir/foo'' ''/ws/builddir/sub/dir/foo'',
      runTaskFile ws_folder ''tool'' ''/ws/builddir/tool'',
      runTaskFile ws_folder ''tool'' ''/ws/builddir/tool.dbg'']"
    unfolding r by (simp add: sample_run_tasks)
  have b: "map (\<lambda>k. (def_target (task_def k), def_filename (task_def k)))
     (filter isRun (fst (getMesonTasksForDir sample_env ''/ws/builddir'' ws_folder))) =
     [(Some ''sub/dir/foo'', None),
      (Some ''tool'', Some ''/ws/builddir/tool''),
      (Some ''tool'', Some ''/ws/builddir/tool.dbg'')]"
    unfolding a by (simp add: runTask_def runTaskFile_def)
  have c: "distinct (map task_def
     (filter isRun (fst (getMesonTasksForDir sample_env ''/ws/builddir'' ws_folder))))"
    unfolding a by (simp add: runTask_def runTaskFile_def)
  show ?thesis using h1 h2 h3 h4 a b c by (intro conjI)
qed

text \<open>
  \<^bold>\<open>C7.\<close> Multi-folder pruning. When the number of workspace folders is not one,
  every node that \<open>rebuildTests\<close> leaves at the top level has at least one child and
  an id equal to the URI path of some workspace folder.
\<close>

theorem rebuildTests_pruned:
  assumes "length workspaceFolders \<noteq> 1"
  shows "\<forall>item\<in>set (fst (rebuildTests E workspaceFolders items)).
           item_children item \<noteq> [] \<and>
           (\<exists>wsFolder\<in>set workspaceFolders. uri_path (wf_uri wsFolder) = item_id item)"
proof
  fix item
  assume a: "item \<in> set (fst (rebuildTests E workspaceFolders items))"
  define st where "st = fold (rebuildTests_folder E) workspaceFolders (items, [])"
  have "rebuildTests E workspaceFolders items = fold (prune_item workspaceFolders) (fst st) st"
    using assms by (cases workspaceFolders rule: list.exhaust; cases "tl workspaceFolders")
      (auto simp: rebuildTests_def st_def Let_def)
  with a have "\<not> prunable workspaceFolders item"
    using fold_prune_kept by simp
  then show "item_children item \<noteq> [] \<and>
           (\<exists>wsFolder\<in>set workspaceFolders. uri_path (wf_uri wsFolder) = item_id item)"
    by (auto simp: prunable_def list_ex_iff)
qed

theorem rebuildTests_pruned_witness:
  "length [ws_folder, other_folder] \<noteq> 1 \<and>
   fst (rebuildTests sample_env [ws_folder, other_folder] stale_tree) =
     [TestItem ''/ws'' ''demo'' None [leaf ws_uri ''unit'', leaf ws_uri ''smoke'']] \<and>
   list_all (\<lambda>item. item_children item \<noteq> [] \<and>
               list_ex (\<lambda>wsFolder. uri_path (wf_uri wsFolder) = item_id item)
                 [ws_folder, other_folder])
     (fst (rebuildTests sample_env [ws_folder, other_folder] stale_tree))"
proof -
  have h: "length [ws_folder, other_folder] \<noteq> 1" by simp
  from rebuildTests_pruned [OF h, of sample_env stale_tree]
  have "list_all (\<lambda>item. item_children item \<noteq> [] \<and>
               list_ex (\<lambda>wsFolder. uri_path (wf_uri wsFolder) = item_id item)
                 [ws_folder, other_folder])
     (fst (rebuildTests sample_env [ws_folder, other_folder] stale_tree))"
    by (simp only: list_all_iff list_ex_iff)
  then show ?thesis using h sample_rebuildTests by (intro conjI)
qed

text \<open>
  \<^bold>\<open>C8.\<close> When an introspection call fails, \<open>getMesonTasksForDir\<close> returns the
  empty task list, and the last thing it does is to show the error message; in
  \<open>getMesonTasks\<close> the tasks of the folders before and after a failing folder are all
  returned.
\<close>

theorem getMesonTasksForDir_failure:
  assumes "introspectionFails E buildDir workspace"
  shows "fst (getMesonTasksForDir E buildDir workspace) = [] \<and>
         snd (getMesonTasksForDir E buildDir workspace) \<noteq> [] \<and>
         last (snd (getMesonTasksForDir E buildDir workspace)) =
           ShowErrorMessage ''Could not fetch targets. See Meson Build output tab for more info.'' \<and>
         (buildDir = buildDirOf E workspace \<longrightarrow>
            fst (getMesonTasks E (before @ workspace # after)) =
              fst (getMesonTasks E before) @ fst (getMesonTasks E after))"
proof -
  from synthesizeTasks_fails [OF assms]
  obtain e where e: "synthesizeTasks E buildDir workspace = Inl e"
    by (cases "synthesizeTasks E buildDir workspace") auto
  have r: "getMesonTasksForDir E buildDir workspace = ([], couldNotFetch e)"
    by (simp add: getMesonTasksForDir_def e)
  have ne: "couldNotFetch e \<noteq> []"
    by (simp add: couldNotFetch_def)
  have one: "buildDir = buildDirOf E workspace \<Longrightarrow> fst (getMesonTasks E [workspace]) = []"
    using r by (simp add: getMesonTasks_def Let_def)
  have agg: "buildDir = buildDirOf E workspace \<Longrightarrow>
      fst (getMesonTasks E (before @ workspace # after)) =
        fst (getMesonTasks E before) @ fst (getMesonTasks E after)"
    using one getMesonTasks_append [of E before "[workspace] @ after"]
      getMesonTasks_append [of E "[workspace]" after] by simp
  show ?thesis using r ne agg by (simp add: last_couldNotFetch)
qed

theorem getMesonTasksForDir_failure_witness:
  "introspectionFails broken_env ''/ws/builddir'' ws_folder \<and>
   ''/ws/builddir'' = buildDirOf broken_env ws_folder \<and>
   fst (getMesonTasksForDir broken_env ''/ws/builddir'' ws_folder) = [] \<and>
   last (snd (getMesonTasksForDir broken_env ''/ws/builddir'' ws_folder)) =
     ShowErrorMessage ''Could not fetch targets. See Meson Build output tab for more info.'' \<and>
   fst (getMesonTasks broken_env ([] @ ws_folder # [other_folder])) =
     fst (getMesonTasks broken_env []) @ fst (getMesonTasks broken_env [other_folder]) \<and>
   fst (getMesonTasks broken_env [ws_folder, other_folder]) =
     defaultTasks broken_env ''/other/builddir'' other_folder"
proof -
  have h: "introspectionFails broken_env ''/ws/builddir'' ws_folder"
    by (simp add: introspectionFails_def broken_env_def)
  have b: "''/ws/builddir'' = buildDirOf broken_env ws_folder"
    by (simp add: broken_buildDir)
  have f: "existsSync broken_env = (\<lambda>p. True)" "getMesonTargets broken_env = (\<lambda>d. Inr [])"
    "getMesonBenchmarks broken_env = (\<lambda>d. Inr [])"
    "getMesonTests broken_env ''/other/builddir'' = Inr []"
    by (simp_all add: broken_env_def)
  have s: "fst (getMesonTasks broken_env [other_folder]) =
      defaultTasks broken_env ''/other/builddir'' other_folder"
    by (simp add: getMesonTasks_def broken_buildDir getMesonTasksForDir_def synthesizeTasks_def
        getMesonTargetsFromFolder_def f)
  have e: "fst (getMesonTasks broken_env []) = []"
    by (simp add: getMesonTasks_def)
  from getMesonTasksForDir_failure [OF h, of "[]" "[other_folder]"]
  show ?thesis using h b s e by simp
qed

text \<open>
  \<^bold>\<open>C9.\<close> When no introspected target is a dependency of a selected test,
  \<open>prepareTestInFolder\<close> returns no launch configuration and has no effect: no build
  is run and nothing is shown.
\<close>

theorem prepareTestInFolder_no_required_targets:
  assumes "getMesonTests E (buildDirOf E wsFolder) = Inr tests"
    and "getMesonTargets E (buildDirOf E wsFolder) = Inr targets"
    and "requiredTargets (relevantTests queue tests) targets = []"
  shows "prepareTestInFolder E queue wsFolder = Inr ([], [])"
  using assms by (simp add: prepareTestInFolder_def Let_def)

theorem prepareTestInFolder_no_required_targets_witness:
  "getMesonTests sample_env (buildDirOf sample_env ws_folder) = Inr [unit_test, smoke_test] \<and>
   getMesonTargets sample_env (buildDirOf sample_env ws_folder) =
     Inr [foo_target, util_target, tool_target] \<and>
   requiredTargets (relevantTests [leaf ws_uri ''smoke''] [unit_test, smoke_test])
     [foo_target, util_target, tool_target] = [] \<and>
   relevantTests [leaf ws_uri ''smoke''] [unit_test, smoke_test] = [smoke_test] \<and>
   prepareTestInFolder sample_env [leaf ws_uri ''smoke''] ws_folder = Inr ([], [])"
proof -
  have h1: "getMesonTests sample_env (buildDirOf sample_env ws_folder) = Inr [unit_test, smoke_test]"
    and h2: "getMesonTargets sample_env (buildDirOf sample_env ws_folder) =
      Inr [foo_target, util_target, tool_target]"
    by (simp_all add: sample_buildDir sample_env_fields)
  have h3: "requiredTargets (relevantTests [leaf ws_uri ''smoke''] [unit_test, smoke_test])
     [foo_target, util_target, tool_target] = []"
    by (simp add: sample_required)
  from prepareTestInFolder_no_required_targets [OF h1 h2 h3]
  show ?thesis using h1 h2 h3 by (simp add: sample_required)
qed

text \<open>
  \<^bold>\<open>C10.\<close> \<open>provideDebugConfigurations\<close> returns one configuration for each target of
  type \<open>executable\<close> with a source in \<open>c\<close> or \<open>cpp\<close>, in order, and none for any
  other target; \<open>program\<close> is the first output file, and every synthesized field
  keeps its value whatever the user's debug options say.
\<close>

theorem provideDebugConfigurations_executables:
  assumes "chosenFolder workspaceFolders folder = Some f"
    and "getMesonTargets E (buildDirOf E f) = Inr targets"
    and "list_all2 (\<lambda>t n. getTargetName E (tag f t) = Inr n) (filter debuggable targets) names"
  shows "provideDebugConfigurations E workspaceFolders folder =
           Inr (map (\<lambda>p. targetLaunch E f (fst p) (snd p)) (zip (filter debuggable targets) names)) \<and>
         length (zip (filter debuggable targets) names) = length (filter debuggable targets) \<and>
         (\<forall>t n. targetLaunch E f t n ''program'' =
                  Some (case target_filename t of [] \<Rightarrow> JUndefined | x # _ \<Rightarrow> JStr x)) \<and>
         (\<forall>t n k v. targetDebugConfiguration E f t n k = Some v \<longrightarrow>
                      targetLaunch E f t n k = Some v)"
proof -
  have fl: "filter debuggable targets =
      filter isNative (filter (\<lambda>t. target_type t = ''executable'') targets)"
    by (simp, rule filter_cong) (auto simp: debuggable_def)
  have ft: "filter (\<lambda>t. target_type t = ''executable'') (map (tag f) targets) =
      map (tag f) (filter (\<lambda>t. target_type t = ''executable'') targets)"
    by (simp add: filter_map comp_def tag_fields)
  have run: "provideDebugConfigurations E workspaceFolders folder =
      debugConfigurations E (map (tag f) (filter (\<lambda>t. target_type t = ''executable'') targets))"
    using assms(1) getMesonTargetsFromFolder_Inr [OF assms(2)]
    by (simp add: provideDebugConfigurations_def chosenFolder_def ft)
  have res: "provideDebugConfigurations E workspaceFolders folder =
      Inr (map (\<lambda>p. targetLaunch E f (fst p) (snd p)) (zip (filter debuggable targets) names))"
    unfolding run fl using assms(3) unfolding fl by (rule debugConfigurations_tagged)
  have len: "length (zip (filter debuggable targets) names) = length (filter debuggable targets)"
    using list_all2_lengthD [OF assms(3)] by simp
  have prog: "\<forall>t n. targetLaunch E f t n ''program'' =
                  Some (case target_filename t of [] \<Rightarrow> JUndefined | x # _ \<Rightarrow> JStr x)"
    by (simp add: targetLaunch_def spread_def targetDebugConfiguration_def)
  have prec: "\<forall>t n k v. targetDebugConfiguration E f t n k = Some v \<longrightarrow>
                      targetLaunch E f t n k = Some v"
    by (simp add: targetLaunch_def spread_def)
  show ?thesis using res len prog prec by blast
qed

theorem provideDebugConfigurations_executables_witness:
  "chosenFolder [ws_folder, other_folder] None = Some ws_folder \<and>
   getMesonTargets custom_env (buildDirOf custom_env ws_folder) =
     Inr [foo_target, util_target, tool_target] \<and>
   list_all2 (\<lambda>t n. getTargetName custom_env (tag ws_folder t) = Inr n)
     (filter debuggable [foo_target, util_target, tool_target]) [''sub/dir/foo''] \<and>
   provideDebugConfigurations custom_env [ws_folder, other_folder] None =
     Inr [targetLaunch custom_env ws_folder foo_target ''sub/dir/foo''] \<and>
   targetLaunch custom_env ws_folder foo_target ''sub/dir/foo'' ''program'' =
     Some (JStr ''/ws/builddir/sub/dir/foo'') \<and>
   debugOptions custom_env ''program'' = Some (JStr ''/usr/bin/gdbserver'')"
proof -
  have h1: "chosenFolder [ws_folder, other_folder] None = Some ws_folder"
    by (simp add: chosenFolder_def)
  have h2: "getMesonTargets custom_env (buildDirOf custom_env ws_folder) =
      Inr [foo_target, util_target, tool_target]"
    by (simp add: custom_buildDir) (simp add: custom_env_def sample_env_fields)
  have h3: "list_all2 (\<lambda>t n. getTargetName custom_env (tag ws_folder t) = Inr n)
      (filter debuggable [foo_target, util_target, tool_target]) [''sub/dir/foo'']"
    by (simp only: sample_debuggable) (simp add: custom_names)
  have d: "debugOptions custom_env ''program'' = Some (JStr ''/usr/bin/gdbserver'')"
    by (simp add: custom_env_def)
  note r = provideDebugConfigurations_executables [OF h1 h2 h3, unfolded sample_debuggable]
  have c: "provideDebugConfigurations custom_env [ws_folder, other_folder] None =
      Inr [targetLaunch custom_env ws_folder foo_target ''sub/dir/foo'']"
    using r by simp
  have p: "targetLaunch custom_env ws_folder foo_target ''sub/dir/foo'' ''program'' =
      Some (JStr ''/ws/builddir/sub/dir/foo'')"
    using r by (simp add: target_fields)
  show ?thesis using h1 h2 h3 d c p by (intro conjI)
qed

end
